theory Spec2Isabelle
  imports Complex_Main
begin

section \<open>Numbers, errors and the helper predicates\<close>

text \<open>
  Python floats are idealised as HOL reals. The one place where the code leaves the reals is
  \<^verbatim>\<open>np.sqrt\<close> of a negative number, which returns \<^verbatim>\<open>nan\<close> (with a warning, not an
  exception); that outcome is a value of its own.
\<close>

datatype npfloat = Fin real | NaN

definition np_sqrt :: "real \<Rightarrow> npfloat" where
  "np_sqrt x = (if x < 0 then NaN else Fin (sqrt x))"

fun np_neg :: "npfloat \<Rightarrow> npfloat" where
  "np_neg (Fin x) = Fin (- x)"
| "np_neg NaN = NaN"

text \<open>
  The exceptions of the two modules. The source raises \<^verbatim>\<open>RuntimeError\<close> and
  \<^verbatim>\<open>ValueError\<close> with a message; each raise is one constructor, named after its message.
\<close>

datatype error =
    FractionError            \<comment> \<open>RuntimeError: fraction is incorrect (from_fractions)\<close>
  | ProjectedMismatch        \<comment> \<open>RuntimeError: Projected edges do not match (match_edge_count)\<close>
  | ProjectionFailed         \<comment> \<open>RuntimeError: Projection failed (_match_side_count)\<close>
  | StitchSidesNotMatched    \<comment> \<open>RuntimeError: Stitch sides do not matched (assembly)\<close>
  | DartPositionError        \<comment> \<open>ValueError: Invalid value supplied for dart position\<close>
  | DartSolveError           \<comment> \<open>ValueError: Solving dart was unsuccessful\<close>
  | NoExtremePoints          \<comment> \<open>RuntimeError: No extreme points (_fit_y_extremum)\<close>
  | IndexError               \<comment> \<open>a list read out of range\<close>
  | EdgeNotFound             \<comment> \<open>substitute: the edge is not in the sequence\<close>
  | PanelNotFound            \<comment> \<open>an interface names a panel the scene does not hold\<close>
  | ZeroDivision             \<comment> \<open>a division by zero\<close>
  | NotChained               \<comment> \<open>isChained: consecutive edges do not share an end point\<close>
  | TypeError                \<comment> \<open>an item assignment to a tuple\<close>

text \<open>
  Modelled from the spec: \<^verbatim>\<open>close_enough(f1, f2=0, tol=1e-4)\<close> of generic_utils, which is
  not among the sources. The spec reads it as "equal within tol" and lets a check fail when
  two values "differ by more than the tolerance".
\<close>

definition close_enough :: "real \<Rightarrow> real \<Rightarrow> real \<Rightarrow> bool" where
  "close_enough f1 f2 tol \<longleftrightarrow> \<bar>f1 - f2\<bar> \<le> tol"

section \<open>Edges\<close>

type_synonym vertex = "real \<times> real"

text \<open>
  Modelled from the spec: the class \<^verbatim>\<open>Edge\<close> of edge.py, which is not among the sources.
  An edge runs from \<open>start\<close> to \<open>endv\<close>; a curved edge has control points relative to its
  chord, a straight one has none; \<open>geometric_id\<close> is the identifier that an edge and its
  subdivision descendants carry, 0 for an edge that has not been given one.
\<close>

record 'v edge =
  start :: 'v
  endv :: 'v
  control_points :: "(real \<times> real) list"
  geometric_id :: nat

definition Edge :: "'v \<Rightarrow> 'v \<Rightarrow> 'v edge" where
  "Edge s e = \<lparr>start = s, endv = e, control_points = [], geometric_id = 0\<rparr>"

definition norm2 :: "vertex \<Rightarrow> real" where
  "norm2 v = sqrt ((fst v)\<^sup>2 + (snd v)\<^sup>2)"

definition vsub :: "vertex \<Rightarrow> vertex \<Rightarrow> vertex" where
  "vsub a b = (fst a - fst b, snd a - snd b)"

text \<open>
  Modelled from the spec: \<^verbatim>\<open>isChained\<close> of EdgeSequence checks that consecutive edges
  share an end point and fails loudly otherwise. The chains built below pass the end vertex
  of one edge on as the start of the next, so the end points coincide exactly and no
  tolerance is involved.
\<close>

fun isChained :: "'v edge list \<Rightarrow> bool" where
  "isChained [] = True"
| "isChained [e] = True"
| "isChained (e1 # e2 # es) = (endv e1 = start e2 \<and> isChained (e2 # es))"

section \<open>EdgeSeqFactory\<close>

text \<open>
  \<^verbatim>\<open>from_verts(*verts, loop=False)\<close>: the first edge joins \<open>verts[0]\<close> and \<open>verts[1]\<close>
  (an IndexError with fewer than two vertices), every further vertex adds an edge from the
  end of the last one, \<open>loop\<close> closes the sequence, and the result is checked with
  \<^verbatim>\<open>isChained\<close>.
\<close>

fun chain_from :: "'v \<Rightarrow> 'v list \<Rightarrow> 'v edge list" where
  "chain_from v [] = []"
| "chain_from v (w # ws) = Edge v w # chain_from w ws"

fun from_verts :: "'v list \<Rightarrow> bool \<Rightarrow> error + 'v edge list" where
  "from_verts (v0 # v1 # vs) loop =
     (let seq = Edge v0 v1 # chain_from v1 vs;
          seq = (if loop then seq @ [Edge (endv (last seq)) (start (hd seq))] else seq)
      in if isChained seq then Inr seq else Inl NotChained)"
| "from_verts vs loop = Inl IndexError"

text \<open>
  \<^verbatim>\<open>from_fractions(start, end, frac)\<close>: the fractions are replaced by their absolute
  values, their sum is compared with 1, and the inner vertices are laid out one after the
  other from \<open>start\<close>; the last vertex is \<open>end\<close> itself.
\<close>

fun fraction_verts :: "vertex \<Rightarrow> vertex \<Rightarrow> real list \<Rightarrow> vertex list" where
  "fraction_verts lastv vec [] = []"
| "fraction_verts lastv vec (f # fs) =
     (let v = (fst lastv + f * fst vec, snd lastv + f * snd vec)
      in v # fraction_verts v vec fs)"

definition from_fractions :: "vertex \<Rightarrow> vertex \<Rightarrow> real list \<Rightarrow> error + vertex edge list" where
  "from_fractions s e frac0 =
     (let frac = map abs frac0;
          fsum = sum_list frac
      in if \<not> close_enough fsum 1 (1 / 10000) then Inl FractionError
         else let vec = vsub e s;
                  verts = [s] @ fraction_verts s vec (butlast frac) @ [e]
              in from_verts verts False)"

text \<open>
  \<^verbatim>\<open>dart_shape(width, depth)\<close>: no check precedes the square root, so a depth below half
  the width yields \<^verbatim>\<open>nan\<close> as the ordinate of the apex.
\<close>

definition dart_shape :: "real \<Rightarrow> real \<Rightarrow> error + (npfloat \<times> npfloat) edge list" where
  "dart_shape width depth =
     (let depth_perp = np_sqrt (depth\<^sup>2 - (width / 2)\<^sup>2)
      in from_verts [(Fin 0, Fin 0), (Fin (width / 2), np_neg depth_perp), (Fin width, Fin 0)] False)"

text \<open>
  Modelled from the spec: \<^verbatim>\<open>Edge.length()\<close> of a straight edge is the Euclidean distance
  of its end points.
\<close>

definition edge_length :: "vertex edge \<Rightarrow> real" where
  "edge_length e = norm2 (vsub (endv e) (start e))"

section \<open>Numeric solves and darts\<close>

definition vadd :: "vertex \<Rightarrow> vertex \<Rightarrow> vertex" where
  "vadd a b = (fst a + fst b, snd a + snd b)"

definition vscale :: "real \<Rightarrow> vertex \<Rightarrow> vertex" where
  "vscale c a = (c * fst a, c * snd a)"

definition dot2 :: "vertex \<Rightarrow> vertex \<Rightarrow> real" where
  "dot2 a b = fst a * fst b + snd a * snd b"

definition cross2 :: "vertex \<Rightarrow> vertex \<Rightarrow> real" where
  "cross2 a b = fst a * snd b - snd a * fst b"

definition deg2rad :: "real \<Rightarrow> real" where
  "deg2rad d = d * pi / 180"

text \<open>
  \<^verbatim>\<open>scipy.optimize.minimize\<close> is a library routine: the model takes it as a parameter
  that maps an objective and an initial guess to an \<^verbatim>\<open>OptimizeResult\<close>, or passes on the
  exception the objective raised. Nothing is assumed about the result it reports.
\<close>

record 'x opt_result =
  opt_x :: 'x
  opt_fun :: real
  opt_success :: bool

type_synonym 'x minimizer = "('x \<Rightarrow> error + real) \<Rightarrow> 'x \<Rightarrow> error + 'x opt_result"

text \<open>\<^verbatim>\<open>_rel_to_abs_coords(start, end, vrel)\<close> and \<^verbatim>\<open>_abs_to_rel_2d(start, end, point)\<close>.
  Both divide by the length of the chord; for \<open>start = end\<close> numpy continues with
  \<^verbatim>\<open>nan\<close>, which the reals do not have, so the statements below are about chords of
  positive length.\<close>

definition rel_to_abs_coords :: "vertex \<Rightarrow> vertex \<Rightarrow> vertex \<Rightarrow> vertex" where
  "rel_to_abs_coords s e vrel =
     (let vec = vsub e s;
          vec = vscale (1 / norm2 vec) vec;
          vec_perp = (- snd vec, fst vec);
          new_start = vadd s (vscale (fst vrel) vec);
          new_point = vadd new_start (vscale (snd vrel) vec_perp)
      in new_point)"

definition abs_to_rel_2d :: "vertex \<Rightarrow> vertex \<Rightarrow> vertex \<Rightarrow> vertex" where
  "abs_to_rel_2d s e point =
     (let edge = vsub e s;
          edge_len = norm2 edge;
          point_vec = vsub point s;
          projected_len = dot2 edge point_vec / edge_len;
          c0 = projected_len / edge_len;
          control_projected = vscale c0 edge;
          vert_comp = vsub point_vec control_projected;
          c1 = norm2 vert_comp / edge_len;
          c1 = c1 * - sgn (cross2 point_vec edge)
      in (c0, c1))"

definition softsign :: "real \<Rightarrow> real" where
  "softsign x = x / (\<bar>x\<bar> + 1)"

text \<open>\<^verbatim>\<open>_fit_dart(coords, v0, v1, d0, d1, depth, theta)\<close>: the sum of the seven squared
  residuals; \<open>coords\<close> holds the three dart points.\<close>

definition fit_dart ::
  "vertex \<times> vertex \<times> vertex \<Rightarrow> vertex \<Rightarrow> vertex \<Rightarrow> real \<Rightarrow> real \<Rightarrow> real \<Rightarrow> real \<Rightarrow> real" where
  "fit_dart coords v0 v1 d0 d1 depth theta0 =
     (case coords of (p0, p_tip, p1) \<Rightarrow>
        let err_d0 = (norm2 (vsub p0 v0) - d0)\<^sup>2;
            err_d1 = (norm2 (vsub p1 v1) - d1)\<^sup>2;
            err_depth0 = (norm2 (vsub p0 p_tip) - depth)\<^sup>2;
            err_depth1 = (norm2 (vsub p1 p_tip) - depth)\<^sup>2;
            theta = deg2rad theta0;
            err_angle0 = (dot2 (vsub p_tip p0) (vsub v0 p0) - cos theta * d0 * depth)\<^sup>2;
            err_angle1 = (dot2 (vsub p_tip p1) (vsub v1 p1) + cos theta * d1 * depth)\<^sup>2;
            err_side = (softsign (cross2 (vsub v1 v0) (vsub p1 v0))
                        - softsign (cross2 (vsub v1 v0) (vsub p0 v0)))\<^sup>2 / 4
        in err_d0 + err_d1 + err_depth0 + err_depth1 + err_angle0 + err_angle1 + err_side)"

text \<open>
  \<^verbatim>\<open>_fit_y_extremum(cp_y, target_location)\<close>: the quadratic Bezier curve through
  \<open>(0,0)\<close>, \<open>(target_x, cp_y)\<close>, \<open>(1,0)\<close> has the ordinate \<open>2 t (1 - t) cp_y\<close>, whose
  derivative has its one root at \<open>t = 1/2\<close> unless \<open>cp_y = 0\<close>, when it has none in
  \<open>(0,1)\<close> and the source raises. The extreme point is the curve's point at \<open>1/2\<close>.
\<close>

definition fit_y_extremum :: "real \<Rightarrow> vertex \<Rightarrow> error + real" where
  "fit_y_extremum cp_y target_location =
     (if cp_y = 0 then Inl NoExtremePoints
      else let extremum = (fst target_location / 2 + 1 / 4, cp_y / 2);
               diff = norm2 (vsub extremum target_location)
           in Inr (diff\<^sup>2))"

text \<open>Modelled from the spec: the constructor \<^verbatim>\<open>CurveEdge(start, end, control_points,
  relative=True)\<close> of edge.py, an edge with control points relative to its chord.\<close>

definition CurveEdge :: "vertex \<Rightarrow> vertex \<Rightarrow> (real \<times> real) list \<Rightarrow> vertex edge" where
  "CurveEdge s e cps = \<lparr>start = s, endv = e, control_points = cps, geometric_id = 0\<rparr>"

text \<open>
  \<^verbatim>\<open>curve_from_extreme(start, end, target_extreme)\<close>. An unsuccessful optimisation only
  prints a warning; the control point is taken from the result in either case.
\<close>

definition curve_from_extreme ::
  "real minimizer \<Rightarrow> vertex \<Rightarrow> vertex \<Rightarrow> vertex \<Rightarrow> error + vertex edge" where
  "curve_from_extreme minimize s e target_extreme =
     (let rel_target = abs_to_rel_2d s e target_extreme
      in case minimize (\<lambda>cp_y. fit_y_extremum cp_y rel_target) (snd rel_target) of
           Inl err \<Rightarrow> Inl err
         | Inr out \<Rightarrow>
             let cp = (fst rel_target, opt_x out)
             in Inr (CurveEdge s e [cp]))"

text \<open>
  \<^verbatim>\<open>side_with_dart_by_len(start, end, target_len, depth, dart_position, dart_angle, right,
  panel=None, tol)\<close>. \<^verbatim>\<open>EdgeSequence.reflect\<close> is not among the sources and is a
  parameter. The result is the triple of the full side, the two dart edges and the two
  non-dart edges; without a panel no interface objects are made. The quotient
  \<^verbatim>\<open>d0 / (d0 + d1)\<close> of Python numbers raises on a zero denominator. The local \<open>dart_seq\<close> is
  the source's \<^verbatim>\<open>dart_shape\<close>.
\<close>

type_synonym reflect_op = "vertex \<Rightarrow> vertex \<Rightarrow> vertex edge list \<Rightarrow> vertex edge list"

definition side_with_dart_by_len ::
  "(vertex \<times> vertex \<times> vertex) minimizer \<Rightarrow> reflect_op \<Rightarrow> vertex \<Rightarrow> vertex \<Rightarrow> real \<Rightarrow> real \<Rightarrow> real \<Rightarrow>
   real \<Rightarrow> bool \<Rightarrow> real \<Rightarrow> error + (vertex edge list \<times> vertex edge list \<times> vertex edge list)" where
  "side_with_dart_by_len minimize reflect s e target_len depth dart_position dart_angle right tol =
     (let v0 = s; v1 = e;
          L = norm2 (vsub v0 v1);
          d0 = dart_position; d1 = target_len - dart_position
      in if d0 + d1 \<ge> L then Inl DartPositionError
         else if d0 + d1 = 0 then Inl ZeroDivision
         else
           let v = vscale (1 / L) (vsub v1 v0);
               p0 = vadd v0 (vscale (L * (d0 / (d0 + d1))) v);
               p1 = p0;
               vperp = (snd v, - fst v);
               p_tip = vadd p0 (vscale depth vperp);
               guess = (p0, p_tip, p1)
           in case minimize (\<lambda>coords. Inr (fit_dart coords v0 v1 d0 d1 depth dart_angle)) guess of
                Inl err \<Rightarrow> Inl err
              | Inr out \<Rightarrow>
                  if \<not> close_enough (opt_fun out) 0 tol then Inl DartSolveError
                  else
                    (case opt_x out of (p0, p_tip, p1) \<Rightarrow>
                       (case from_verts [p0, p_tip, p1] False of
                          Inl err \<Rightarrow> Inl err
                        | Inr dart_seq \<Rightarrow>
                            let right_position = (sgn (cross2 (vsub v1 v0) (vsub p_tip v0)) = - 1);
                                dart_seq =
                                  (if (\<not> right \<and> right_position) \<or> (right \<and> \<not> right_position)
                                   then reflect s e dart_seq else dart_seq);
                                dart_seq = Edge s (start (hd dart_seq)) # dart_seq;
                                dart_seq = dart_seq @ [Edge (endv (last dart_seq)) e]
                            in Inr (dart_seq, butlast (tl dart_seq),
                                    [hd dart_seq, last dart_seq]))))"

section \<open>A side with a dart of given width\<close>

text \<open>
  \<^verbatim>\<open>side_with_dart_by_width(start, end, width, depth, dart_position, opening_angle, right,
  modify, panel=None)\<close> writes to its arguments. Line 155, \<^verbatim>\<open>end[:] = ...\<close>, is an item
  assignment: it raises a TypeError when \<open>end\<close> is a tuple, as the declared default
  \<^verbatim>\<open>(100,0)\<close> is, and overwrites the caller's vertex when \<open>end\<close> is a list. So the argument
  \<open>end\<close> is a tuple or a list of two coordinates; \<open>start\<close> is taken to be a list.
\<close>

datatype pyvertex = TupleV vertex | ListV vertex

fun coords :: "pyvertex \<Rightarrow> vertex" where
  "coords (TupleV v) = v"
| "coords (ListV v) = v"

text \<open>
  The edges of the side share their vertices: each one starts at the vertex object at which
  the one before ends, the first at the caller's \<open>start\<close>, the last at the caller's \<open>end\<close>,
  and the methods that move the side change these objects in place. A geometry is therefore
  a store of vertex objects, addressed by their position in \<open>g_verts\<close>, together with the
  sequence of edges as pairs of addresses. Lines 162 and 163 join the dart to the caller's
  vertices: \<open>start\<close> is the first object of the store and \<open>end\<close> the last one.
\<close>

record geom =
  g_verts :: "vertex list"
  g_seq :: "(nat \<times> nat) list"

definition edges_of :: "geom \<Rightarrow> vertex edge list" where
  "edges_of g = map (\<lambda>(a, b). Edge (g_verts g ! a) (g_verts g ! b)) (g_seq g)"

definition dart_geometry :: "vertex \<Rightarrow> vertex list \<Rightarrow> vertex \<Rightarrow> geom" where
  "dart_geometry s dart_verts e =
     (let verts = [s] @ dart_verts @ [e]
      in \<lparr>g_verts = verts, g_seq = map (\<lambda>i. (i, i + 1)) [0 ..< length verts - 1]\<rparr>)"

text \<open>
  The methods of \<^verbatim>\<open>EdgeSequence\<close> and \<^verbatim>\<open>Edge\<close> that move vertices, and
  \<^verbatim>\<open>vector_angle\<close> of generic_utils, are not among the sources: they are parameters of
  the function. \<open>seq_reflect\<close> is applied to the three vertices of the dart before they are
  joined to the side; the other methods act on a geometry, an edge being addressed by its
  index in the sequence.
\<close>

record seq_ops =
  seq_reflect :: "vertex \<Rightarrow> vertex \<Rightarrow> vertex list \<Rightarrow> vertex list"
  seq_translate_by :: "vertex \<Rightarrow> geom \<Rightarrow> geom"
  seq_rotate :: "real \<Rightarrow> geom \<Rightarrow> geom"
  seq_reverse :: "geom \<Rightarrow> geom"
  edge_rotate :: "nat \<Rightarrow> real \<Rightarrow> geom \<Rightarrow> geom"
  edge_reverse :: "nat \<Rightarrow> geom \<Rightarrow> geom"
  vector_angle :: "vertex \<Rightarrow> vertex \<Rightarrow> real"

text \<open>
  Lines 119 to 153: the length \<open>long_side\<close> of the side that the dart extends, the points
  \<open>p1\<close>, \<open>p_tip\<close>, \<open>p2\<close> of the dart and the new location \<open>new_end\<close> of the end of the
  side, from the square root \<open>depth_perp\<close>.
\<close>

definition dart_points ::
  "vertex \<Rightarrow> vertex \<Rightarrow> real \<Rightarrow> real \<Rightarrow> real \<Rightarrow> real \<Rightarrow> real \<Rightarrow>
   real \<times> vertex \<times> vertex \<times> vertex \<times> vertex" where
  "dart_points v0 v1 width dart_side depth_perp d0 d1 =
     (let delta_l = dart_side * width / (2 * depth_perp);
          side0 = d0 + delta_l; side1 = d1 + delta_l;
          alpha = \<bar>arctan (width / 2 / depth_perp)\<bar>;
          top_angle = pi - 2 * alpha;
          long_side = sqrt (side0\<^sup>2 + side1\<^sup>2 - 2 * side0 * side1 * cos top_angle);
          sin0 = side1 * sin top_angle / long_side;
          sin1 = side0 * sin top_angle / long_side;
          angle0 = arcsin sin0; angle1 = arcsin sin1;
          p1 = rel_to_abs_coords v0 v1 (d0 * cos angle0, d0 * sin0);
          p2 = rel_to_abs_coords v0 v1 (long_side - d1 * cos angle1, d1 * sin1);
          p_vec = vsub p2 p1;
          p_perp = (- snd p_vec, fst p_vec);
          p_perp = vscale depth_perp (vscale (1 / norm2 p_perp) p_perp);
          p_tip = vsub (vadd p1 (vscale (1 / 2) p_vec)) p_perp;
          new_end = rel_to_abs_coords v0 v1 (long_side, 0)
      in (long_side, p1, p_tip, p2, new_end))"

text \<open>
  Lines 166 to 182: the change is handed to the end vertex, to the start vertex or to both,
  and the opening angle is set. \<open>v1\<close> is the value that \<open>end\<close> had on entry. Any other
  value of \<open>modify\<close> leaves the side as it is.
\<close>

definition redistribute ::
  "seq_ops \<Rightarrow> string \<Rightarrow> real \<Rightarrow> vertex \<Rightarrow> vertex \<Rightarrow> vertex \<Rightarrow> vertex \<Rightarrow> vertex \<Rightarrow> vertex \<Rightarrow> geom \<Rightarrow> geom" where
  "redistribute ops modify angle_diff shift p1 p2 v0 v1 new_end g =
     (let lst = length (g_seq g) - 1
      in if modify = ''both'' then
           let g = seq_translate_by ops (vscale (- 1 / 2) shift) g;
               g = edge_reverse ops 0 (edge_rotate ops 0 (- angle_diff / 2) (edge_reverse ops 0 g))
           in edge_rotate ops lst (angle_diff / 2) g
         else if modify = ''end'' then
           let g = seq_rotate ops (vector_angle ops (vsub p1 v0) (vsub v1 v0)) g
           in edge_rotate ops lst angle_diff g
         else if modify = ''start'' then
           let g = seq_translate_by ops (vscale (- 1) shift) g;
               g = seq_reverse ops g;
               g = seq_rotate ops (vector_angle ops (vsub p2 new_end) (vscale (- 1) (vsub v1 v0))) g;
               g = edge_rotate ops lst (- angle_diff) g
           in seq_reverse ops g
         else g)"

text \<open>
  The result. \<open>NanDart\<close> stands for a call that returns coordinates that are \<^verbatim>\<open>nan\<close> or
  infinite: numpy raises nothing when the square root is \<^verbatim>\<open>nan\<close> or when it divides by a
  zero \<open>depth_perp\<close>, a zero chord, a zero \<open>long_side\<close> or a zero \<open>norm(p_perp)\<close>, and the
  reals have no such values. Otherwise the result holds the geometry after the call, with
  the caller's \<open>start\<close> and \<open>end\<close> in it, and the second and third value returned: the dart
  edges and the two edges beside the dart.
\<close>

datatype dart_result = NanDart | Dart geom "vertex edge list" "vertex edge list"

definition side_with_dart_by_width ::
  "seq_ops \<Rightarrow> vertex \<Rightarrow> pyvertex \<Rightarrow> real \<Rightarrow> real \<Rightarrow> real \<Rightarrow> real \<Rightarrow> bool \<Rightarrow> string \<Rightarrow>
   error + dart_result" where
  "side_with_dart_by_width ops s end_arg width depth dart_position opening_angle right modify =
     (let v0 = s; v1 = coords end_arg;
          L = norm2 (vsub v1 v0);
          d0 = dart_position; d1 = L - dart_position;
          depth_perp_np = np_sqrt (depth\<^sup>2 - (width / 2)\<^sup>2);
          dart_side = depth
      in if d1 < 0 then Inl DartPositionError
         else case end_arg of
           TupleV t \<Rightarrow> Inl TypeError
         | ListV l \<Rightarrow>
            (case depth_perp_np of
               NaN \<Rightarrow> Inr NanDart
             | Fin depth_perp \<Rightarrow>
                 if depth_perp = 0 \<or> L = 0 then Inr NanDart
                 else
                   (case dart_points v0 v1 width dart_side depth_perp d0 d1 of
                      (long_side, p1, p_tip, p2, new_end) \<Rightarrow>
                        if long_side = 0 \<or> p1 = p2 then Inr NanDart
                        else
                          let shift = vsub new_end v1;
                              e = new_end
                          in case from_verts [p1, p_tip, p2] False of
                               Inl err \<Rightarrow> Inl err
                             | Inr dart_seq \<Rightarrow>
                                 let dart_verts = start (hd dart_seq) # map endv dart_seq;
                                     dart_verts = (if \<not> right then seq_reflect ops s e dart_verts
                                                   else dart_verts);
                                     g = dart_geometry s dart_verts e;
                                     angle_diff = (if right then deg2rad (180 - opening_angle) * 1
                                                   else - 1);
                                     g = redistribute ops modify angle_diff shift p1 p2 v0 v1 new_end g
                                 in Inr (Dart g (butlast (tl (edges_of g)))
                                           [hd (edges_of g), last (edges_of g)]))))"

text \<open>The values of the caller's \<open>start\<close> and \<open>end\<close> after a call that returns them as
  pairs of reals.\<close>

fun start_after :: "error + dart_result \<Rightarrow> vertex option" where
  "start_after (Inr (Dart g dart_edges side_edges)) = Some (hd (g_verts g))"
| "start_after r = None"

fun end_after :: "error + dart_result \<Rightarrow> vertex option" where
  "end_after (Inr (Dart g dart_edges side_edges)) = Some (last (g_verts g))"
| "end_after r = None"

text \<open>
  Modelled from the spec: the methods \<^verbatim>\<open>translate_by\<close>, \<^verbatim>\<open>rotate\<close>, \<^verbatim>\<open>reverse\<close> and
  \<^verbatim>\<open>reflect\<close> of edge.py, which is not among the sources. The spec has \<^verbatim>\<open>reverse()\<close>
  swap start and end, speaks of edges that are translated and rotated, and says of this
  constructor that \<open>modify\<close> selects the endpoint that absorbs the change of position. So
  the methods are the rigid motions of their names, applied to the vertex objects in place:
  \<^verbatim>\<open>translate_by\<close> shifts every vertex of the sequence once, \<^verbatim>\<open>EdgeSequence.rotate\<close> turns
  the sequence about its first vertex (the source reverses the side "making the end vertex
  the start (to rotate around)"), \<^verbatim>\<open>Edge.rotate\<close> turns the end of an edge about its start,
  the two \<^verbatim>\<open>reverse\<close> methods change directions and order and move nothing, and
  \<^verbatim>\<open>reflect\<close> mirrors vertices at the line through two points. The angle between two
  vectors stays a parameter.
\<close>

definition rot2 :: "real \<Rightarrow> vertex \<Rightarrow> vertex" where
  "rot2 a v = (cos a * fst v - sin a * snd v, sin a * fst v + cos a * snd v)"

definition rotate_about :: "vertex \<Rightarrow> real \<Rightarrow> vertex \<Rightarrow> vertex" where
  "rotate_about pivot a v = vadd pivot (rot2 a (vsub v pivot))"

definition reflect_point :: "vertex \<Rightarrow> vertex \<Rightarrow> vertex \<Rightarrow> vertex" where
  "reflect_point a b p =
     (let d = vsub b a;
          foot = vadd a (vscale (dot2 (vsub p a) d / dot2 d d) d)
      in vsub (vscale 2 foot) p)"

definition seq_addresses :: "geom \<Rightarrow> nat set" where
  "seq_addresses g = fst ` set (g_seq g) \<union> snd ` set (g_seq g)"

definition move_verts :: "(vertex \<Rightarrow> vertex) \<Rightarrow> geom \<Rightarrow> geom" where
  "move_verts f g =
     g\<lparr>g_verts := map (\<lambda>a. if a \<in> seq_addresses g then f (g_verts g ! a) else g_verts g ! a)
                        [0 ..< length (g_verts g)]\<rparr>"

definition plane_ops :: "(vertex \<Rightarrow> vertex \<Rightarrow> real) \<Rightarrow> seq_ops" where
  "plane_ops angle =
     \<lparr>seq_reflect = (\<lambda>a b vs. map (reflect_point a b) vs),
      seq_translate_by = (\<lambda>v g. move_verts (\<lambda>p. vadd p v) g),
      seq_rotate = (\<lambda>a g. case g_seq g of
                               [] \<Rightarrow> g
                             | (i, j) # es \<Rightarrow> move_verts (rotate_about (g_verts g ! i) a) g),
      seq_reverse = (\<lambda>g. g\<lparr>g_seq := rev (map prod.swap (g_seq g))\<rparr>),
      edge_rotate = (\<lambda>k a g. case g_seq g ! k of
                                  (i, j) \<Rightarrow> g\<lparr>g_verts := (g_verts g)[j := rotate_about (g_verts g ! i) a
                                                                            (g_verts g ! j)]\<rparr>),
      edge_reverse = (\<lambda>k g. g\<lparr>g_seq := (g_seq g)[k := prod.swap (g_seq g ! k)]\<rparr>),
      vector_angle = angle\<rparr>"

text \<open>
  A value for \<^verbatim>\<open>vector_angle\<close> in the examples below; none of the results stated there
  depends on the angle.
\<close>

definition no_turn :: "vertex \<Rightarrow> vertex \<Rightarrow> real" where
  "no_turn a b = 0"


section \<open>Panels and interfaces\<close>

type_synonym vec3 = "real \<times> real \<times> real"

text \<open>
  Modelled from the spec: the classes \<^verbatim>\<open>Panel\<close> and \<^verbatim>\<open>Interface\<close>, which are not among
  the sources. A panel has a name, its boundary and a rigid placement (a rotation matrix,
  given by its rows, and a translation) into the 3-D scene. An interface lists edges and,
  index by index, the panel that owns each of them. Panels are objects that several
  interfaces refer to: the scene maps a panel reference to the panel's current state, and an
  interface holds references. Edges are told apart by their value; within one boundary or
  interface different edges differ in their end points. \<^verbatim>\<open>Panel.point_to_3D\<close> applies the
  rotation to the point, taken into the plane \<open>z = 0\<close>, and adds the translation.
\<close>

record panel =
  p_name :: string
  p_edges :: "vertex edge list"
  rotation :: "vec3 \<times> vec3 \<times> vec3"
  translation :: vec3

record interface =
  i_edges :: "vertex edge list"
  i_panel :: "nat list"

type_synonym scene = "nat \<Rightarrow> panel option"

definition point_to_3D :: "panel \<Rightarrow> vertex \<Rightarrow> vec3" where
  "point_to_3D p v =
     (case rotation p of ((r11, r12, r13), (r21, r22, r23), (r31, r32, r33)) \<Rightarrow>
        case translation p of (t1, t2, t3) \<Rightarrow>
          (r11 * fst v + r12 * snd v + t1,
           r21 * fst v + r22 * snd v + t2,
           r31 * fst v + r32 * snd v + t3))"

definition vsub3 :: "vec3 \<Rightarrow> vec3 \<Rightarrow> vec3" where
  "vsub3 a b = (case a of (a1, a2, a3) \<Rightarrow> case b of (b1, b2, b3) \<Rightarrow> (a1 - b1, a2 - b2, a3 - b3))"

definition norm3 :: "vec3 \<Rightarrow> real" where
  "norm3 a = (case a of (a1, a2, a3) \<Rightarrow> sqrt (a1\<^sup>2 + a2\<^sup>2 + a3\<^sup>2))"

text \<open>
  Modelled from the spec: \<^verbatim>\<open>Interface.projecting_edges()\<close> gives, for each edge of the
  interface, its projection length onto the straight chord between the interface's first
  start and last end vertex. The source reads the lengths off the result with
  \<^verbatim>\<open>.lengths()\<close> and \<^verbatim>\<open>[i].length()\<close>; here the result is the list of lengths itself. An
  empty interface has no chord, and a chord of length zero no projection.
\<close>

definition projecting_edges :: "interface \<Rightarrow> error + real list" where
  "projecting_edges itf =
     (case i_edges itf of
        [] \<Rightarrow> Inl IndexError
      | e0 # es \<Rightarrow>
          let chord = vsub (endv (last (i_edges itf))) (start e0)
          in if norm2 chord = 0 then Inl ZeroDivision
             else Inr (map (\<lambda>e. \<bar>dot2 (vsub (endv e) (start e)) chord\<bar> / norm2 chord) (i_edges itf)))"

text \<open>
  Modelled from the spec: \<^verbatim>\<open>EdgeSequence.substitute(old_edge, new_chain)\<close> replaces the
  edge in place, keeps the order of the rest and hands the \<open>geometric_id\<close> of the edge
  down to the chain. Its requirement that the chain has the end points of the edge is met by
  every chain that \<^verbatim>\<open>from_fractions\<close> builds from these end points.
\<close>

definition inherit_id :: "vertex edge \<Rightarrow> vertex edge \<Rightarrow> vertex edge" where
  "inherit_id old e = e\<lparr>geometric_id := geometric_id old\<rparr>"

fun substitute :: "vertex edge list \<Rightarrow> vertex edge \<Rightarrow> vertex edge list \<Rightarrow> error + vertex edge list" where
  "substitute [] old new = Inl EdgeNotFound"
| "substitute (x # xs) old new =
     (if x = old then Inr (map (inherit_id old) new @ xs)
      else case substitute xs old new of
             Inl err \<Rightarrow> Inl err
           | Inr ys \<Rightarrow> Inr (x # ys))"

text \<open>\<^verbatim>\<open>list.insert(i, x)\<close> for an index within the list.\<close>

definition list_insert :: "nat \<Rightarrow> 'a \<Rightarrow> 'a list \<Rightarrow> 'a list" where
  "list_insert i x xs = take i xs @ x # drop i xs"

section \<open>StitchingRule\<close>

text \<open>
  The state that a stitching rule works on: its two interfaces and the panels they refer
  to. A method that raises leaves the state as it is at that moment, so the methods that
  mutate return the state together with the exception, if any.
\<close>

record world =
  int1 :: interface
  int2 :: interface
  scene :: scene

definition isMatching :: "world \<Rightarrow> bool" where
  "isMatching w \<longleftrightarrow> length (i_edges (int1 w)) = length (i_edges (int2 w))"

text \<open>The corner points \<^verbatim>\<open>inter.panel[0].point_to_3D(inter.edges[0].start)\<close> and
  \<^verbatim>\<open>inter.panel[-1].point_to_3D(inter.edges[-1].end)\<close>.\<close>

definition first_corner :: "scene \<Rightarrow> interface \<Rightarrow> error + vec3" where
  "first_corner sc itf =
     (case i_panel itf of
        [] \<Rightarrow> Inl IndexError
      | pid # pids \<Rightarrow>
          (case sc pid of
             None \<Rightarrow> Inl PanelNotFound
           | Some p \<Rightarrow>
               (case i_edges itf of
                  [] \<Rightarrow> Inl IndexError
                | e # es \<Rightarrow> Inr (point_to_3D p (start e)))))"

definition last_corner :: "scene \<Rightarrow> interface \<Rightarrow> error + vec3" where
  "last_corner sc itf =
     (if i_panel itf = [] then Inl IndexError
      else case sc (last (i_panel itf)) of
             None \<Rightarrow> Inl PanelNotFound
           | Some p \<Rightarrow>
               if i_edges itf = [] then Inl IndexError
               else Inr (point_to_3D p (endv (last (i_edges itf)))))"

definition isTraversalMatching :: "world \<Rightarrow> error + bool" where
  "isTraversalMatching w =
     (if length (i_edges (int1 w)) > 1 then
        case first_corner (scene w) (int1 w) of Inl err \<Rightarrow> Inl err | Inr start_1 \<Rightarrow>
        case first_corner (scene w) (int2 w) of Inl err \<Rightarrow> Inl err | Inr start_2 \<Rightarrow>
        case last_corner (scene w) (int1 w) of Inl err \<Rightarrow> Inl err | Inr end_1 \<Rightarrow>
        case last_corner (scene w) (int2 w) of Inl err \<Rightarrow> Inl err | Inr end_2 \<Rightarrow>
          let stitch_dist_straight = norm3 (vsub3 start_2 start_1) + norm3 (vsub3 end_2 end_1);
              stitch_dist_reverse = norm3 (vsub3 start_2 end_1) + norm3 (vsub3 end_2 start_1)
          in if stitch_dist_reverse < stitch_dist_straight then Inr False else Inr True
      else Inr True)"

text \<open>
  \<^verbatim>\<open>_match_side_count(inter, to_add, tol)\<close>. The local variables of its loop, with the
  interface and the panels that the loop mutates, make up the loop state; one pass of the
  loop body is \<open>match_step\<close>. A pass that raises has mutated nothing. The quotient
  \<^verbatim>\<open>new_v_loc / projected_edge.length()\<close> fails on a projected length of zero (as a
  division by zero, or later in \<^verbatim>\<open>from_fractions\<close>, which rejects the infinite fraction).
\<close>

record side_state =
  st_inter :: interface
  st_scene :: scene
  in_id :: nat
  add_id :: nat
  covered_init :: real
  covered_added :: real

definition match_step :: "real \<Rightarrow> real list \<Rightarrow> side_state \<Rightarrow> error + side_state" where
  "match_step tol to_add st =
     (case projecting_edges (st_inter st) of
        Inl err \<Rightarrow> Inl err
      | Inr proj \<Rightarrow>
          let next_init = covered_init st + proj ! in_id st;
              next_added = covered_added st + to_add ! add_id st
          in if close_enough next_init next_added tol then
               Inr (st\<lparr>in_id := in_id st + 1, add_id := add_id st + 1,
                       covered_init := next_init, covered_added := next_added\<rparr>)
             else if next_init < next_added then
               Inr (st\<lparr>in_id := in_id st + 1, covered_init := next_init\<rparr>)
             else
               let projected_len = proj ! in_id st;
                   new_v_loc = projected_len - (next_init - next_added)
               in if projected_len = 0 then Inl ZeroDivision
                  else
                    let frac = new_v_loc / projected_len;
                        base_edge = i_edges (st_inter st) ! in_id st
                    in case from_fractions (start base_edge) (endv base_edge) [frac, 1 - frac] of
                         Inl err \<Rightarrow> Inl err
                       | Inr subdiv \<Rightarrow>
                           if \<not> in_id st < length (i_panel (st_inter st)) then Inl IndexError
                           else
                             let pid = i_panel (st_inter st) ! in_id st
                             in case st_scene st pid of
                                  None \<Rightarrow> Inl PanelNotFound
                                | Some p \<Rightarrow>
                                    (case substitute (p_edges p) base_edge subdiv of
                                       Inl err \<Rightarrow> Inl err
                                     | Inr pedges \<Rightarrow>
                                         (case substitute (i_edges (st_inter st)) base_edge subdiv of
                                            Inl err \<Rightarrow> Inl err
                                          | Inr iedges \<Rightarrow>
                                              Inr (st\<lparr>st_inter :=
                                                        \<lparr>i_edges = iedges,
                                                         i_panel = list_insert (in_id st) pid
                                                                     (i_panel (st_inter st))\<rparr>,
                                                      st_scene := (st_scene st)(pid \<mapsto> p\<lparr>p_edges := pedges\<rparr>),
                                                      in_id := in_id st + 1, add_id := add_id st + 1,
                                                      covered_init := covered_init st + edge_length (hd subdiv),
                                                      covered_added := next_added\<rparr>))))"

function match_loop :: "real \<Rightarrow> real list \<Rightarrow> side_state \<Rightarrow> side_state \<times> error option" where
  "match_loop tol to_add st =
     (if in_id st < length (i_edges (st_inter st)) \<and> add_id st < length to_add then
        case match_step tol to_add st of
          Inl err \<Rightarrow> (st, Some err)
        | Inr st' \<Rightarrow> match_loop tol to_add st'
      else (st, None))"
  by pat_completeness auto
termination
proof (relation "measures [\<lambda>(tol, to_add, st). length to_add - add_id st,
                            \<lambda>(tol, to_add, st). length (i_edges (st_inter st)) - in_id st]")
  show "wf (measures [\<lambda>(tol, to_add, st). length to_add - add_id st,
                       \<lambda>(tol, to_add, st). length (i_edges (st_inter st)) - in_id st])"
    by simp
next
  fix tol :: real and to_add :: "real list" and st st' :: side_state
  assume run: "in_id st < length (i_edges (st_inter st)) \<and> add_id st < length to_add"
    and step: "match_step tol to_add st = Inr st'"
  from step have
    "(add_id st' = add_id st + 1) \<or>
     (add_id st' = add_id st \<and> in_id st' = in_id st + 1 \<and> st_inter st' = st_inter st)"
    unfolding match_step_def
    by (auto simp: Let_def split: sum.splits if_splits option.splits)
  with run show "((tol, to_add, st'), (tol, to_add, st)) \<in>
      measures [\<lambda>(tol, to_add, st). length to_add - add_id st,
                \<lambda>(tol, to_add, st). length (i_edges (st_inter st)) - in_id st]"
    by auto
qed

definition match_side_count ::
  "scene \<Rightarrow> interface \<Rightarrow> real list \<Rightarrow> real \<Rightarrow> (interface \<times> scene) \<times> error option" where
  "match_side_count sc itf to_add tol =
     (case match_loop tol to_add
             \<lparr>st_inter = itf, st_scene = sc, in_id = 0, add_id = 0,
              covered_init = 0, covered_added = 0\<rparr> of
        (st, Some err) \<Rightarrow> ((st_inter st, st_scene st), Some err)
      | (st, None) \<Rightarrow>
          ((st_inter st, st_scene st),
           if add_id st \<noteq> length to_add then Some ProjectionFailed else None))"

text \<open>
  \<^verbatim>\<open>match_edge_count(tol)\<close>: both lists of lengths are reversed when the traversal does
  not match; the totals are compared before either side is subdivided, and the second side
  is matched against the lengths that the first side had on entry.
\<close>

definition match_edge_count :: "world \<Rightarrow> real \<Rightarrow> world \<times> error option" where
  "match_edge_count w tol =
     (case projecting_edges (int1 w) of Inl err \<Rightarrow> (w, Some err) | Inr lengths1 \<Rightarrow>
      case isTraversalMatching w of Inl err \<Rightarrow> (w, Some err) | Inr matching1 \<Rightarrow>
        let lengths1 = (if \<not> matching1 then rev lengths1 else lengths1)
        in
      case projecting_edges (int2 w) of Inl err \<Rightarrow> (w, Some err) | Inr lengths2 \<Rightarrow>
      case isTraversalMatching w of Inl err \<Rightarrow> (w, Some err) | Inr matching2 \<Rightarrow>
        let lengths2 = (if \<not> matching2 then rev lengths2 else lengths2)
        in if \<not> close_enough (sum_list lengths1) (sum_list lengths2) tol
           then (w, Some ProjectedMismatch)
           else
             case match_side_count (scene w) (int1 w) lengths2 tol of
               ((i1, sc1), Some err) \<Rightarrow> (w\<lparr>int1 := i1, scene := sc1\<rparr>, Some err)
             | ((i1, sc1), None) \<Rightarrow>
                 (case match_side_count sc1 (int2 w) lengths1 tol of
                    ((i2, sc2), r) \<Rightarrow> (w\<lparr>int1 := i1, int2 := i2, scene := sc2\<rparr>, r)))"

text \<open>\<^verbatim>\<open>StitchingRule.__init__(int1, int2)\<close>, with the panels that the interfaces refer to.\<close>

definition StitchingRule :: "interface \<Rightarrow> interface \<Rightarrow> scene \<Rightarrow> world \<times> error option" where
  "StitchingRule i1 i2 sc =
     (let w = \<lparr>int1 = i1, int2 = i2, scene = sc\<rparr>
      in if \<not> isMatching w then match_edge_count w (1 / 10) else (w, None))"

text \<open>
  \<^verbatim>\<open>StitchingRule.assembly()\<close>: a stitch is a pair of sides, each the name of the panel and
  the \<open>geometric_id\<close> of the edge. \<open>stitch_indices\<close> is the \<^verbatim>\<open>zip\<close> of the two ranges that
  the loop runs over.
\<close>

type_synonym stitch = "(string \<times> nat) \<times> (string \<times> nat)"

definition stitch_side :: "scene \<Rightarrow> interface \<Rightarrow> nat \<Rightarrow> error + string \<times> nat" where
  "stitch_side sc itf i =
     (if \<not> i < length (i_panel itf) then Inl IndexError
      else case sc (i_panel itf ! i) of
             None \<Rightarrow> Inl PanelNotFound
           | Some p \<Rightarrow>
               if \<not> i < length (i_edges itf) then Inl IndexError
               else Inr (p_name p, geometric_id (i_edges itf ! i)))"

definition stitch_indices :: "world \<Rightarrow> bool \<Rightarrow> (nat \<times> nat) list" where
  "stitch_indices w swap =
     zip [0 ..< length (i_edges (int1 w))]
         (if swap then rev [0 ..< length (i_edges (int2 w))] else [0 ..< length (i_edges (int2 w))])"

fun build_stitches :: "world \<Rightarrow> (nat \<times> nat) list \<Rightarrow> error + stitch list" where
  "build_stitches w [] = Inr []"
| "build_stitches w ((i, j) # ijs) =
     (case stitch_side (scene w) (int1 w) i of Inl err \<Rightarrow> Inl err | Inr side1 \<Rightarrow>
      case stitch_side (scene w) (int2 w) j of Inl err \<Rightarrow> Inl err | Inr side2 \<Rightarrow>
      case build_stitches w ijs of Inl err \<Rightarrow> Inl err | Inr stitches \<Rightarrow>
        Inr ((side1, side2) # stitches))"

definition assembly :: "world \<Rightarrow> error + stitch list" where
  "assembly w =
     (if \<not> isMatching w then Inl StitchSidesNotMatched
      else case isTraversalMatching w of
             Inl err \<Rightarrow> Inl err
           | Inr matching \<Rightarrow>
               let swap = \<not> matching
               in build_stitches w (stitch_indices w swap))"

text \<open>
  \<^verbatim>\<open>Stitches\<close>: the constructor and \<^verbatim>\<open>append\<close> construct one rule after the other on the
  same panels; \<^verbatim>\<open>assembly\<close> joins the stitches of the rules in their order. A rule is kept
  as its pair of interfaces.
\<close>

fun Stitches :: "(interface \<times> interface) list \<Rightarrow> scene \<Rightarrow>
    ((interface \<times> interface) list \<times> scene) \<times> error option" where
  "Stitches [] sc = (([], sc), None)"
| "Stitches ((i1, i2) # pairs) sc =
     (case StitchingRule i1 i2 sc of
        (w, Some err) \<Rightarrow> (([], scene w), Some err)
      | (w, None) \<Rightarrow>
          (case Stitches pairs (scene w) of
             ((rules, sc'), r) \<Rightarrow> (((int1 w, int2 w) # rules, sc'), r)))"

definition Stitches_append ::
  "(interface \<times> interface) list \<Rightarrow> interface \<times> interface \<Rightarrow> scene \<Rightarrow>
   ((interface \<times> interface) list \<times> scene) \<times> error option" where
  "Stitches_append rules pair sc =
     (case StitchingRule (fst pair) (snd pair) sc of
        (w, Some err) \<Rightarrow> ((rules, scene w), Some err)
      | (w, None) \<Rightarrow> ((rules @ [(int1 w, int2 w)], scene w), None))"

fun Stitches_assembly :: "(interface \<times> interface) list \<Rightarrow> scene \<Rightarrow> error + stitch list" where
  "Stitches_assembly [] sc = Inr []"
| "Stitches_assembly ((i1, i2) # rules) sc =
     (case assembly \<lparr>int1 = i1, int2 = i2, scene = sc\<rparr> of Inl err \<Rightarrow> Inl err | Inr stitches \<Rightarrow>
      case Stitches_assembly rules sc of Inl err \<Rightarrow> Inl err | Inr rest \<Rightarrow> Inr (stitches @ rest))"

section \<open>Lengths of edges and sizes of boundaries\<close>

text \<open>
  Modelled from the spec: \<^verbatim>\<open>Edge.length()\<close> of a curved edge is the arc length of the
  parametric curve, which "may be approximated by fine sampling". The curve is the Bezier
  curve from \<open>start\<close> to \<open>endv\<close> whose inner control points are the control points of the
  edge; these are relative to the chord: the first coordinate is the fraction along the
  chord, the second the offset to its left in units of its length. The length is taken
  along the polyline through the curve points at \<open>0, 1/n, \<dots>, 1\<close>; every such polyline is
  at most as long as the curve.
\<close>

definition control_to_abs :: "vertex edge \<Rightarrow> real \<times> real \<Rightarrow> vertex" where
  "control_to_abs e cp =
     (let v = vsub (endv e) (start e)
      in vadd (start e) (vadd (vscale (fst cp) v) (vscale (snd cp) (- snd v, fst v))))"

fun lerp_all :: "real \<Rightarrow> vertex list \<Rightarrow> vertex list" where
  "lerp_all t (p # q # ps) = vadd (vscale (1 - t) p) (vscale t q) # lerp_all t (q # ps)"
| "lerp_all t ps = []"

fun reduce_points :: "nat \<Rightarrow> real \<Rightarrow> vertex list \<Rightarrow> vertex list" where
  "reduce_points 0 t ps = ps"
| "reduce_points (Suc k) t ps = reduce_points k t (lerp_all t ps)"

definition curve_point :: "vertex edge \<Rightarrow> real \<Rightarrow> vertex" where
  "curve_point e t =
     (let pts = start e # map (control_to_abs e) (control_points e) @ [endv e]
      in hd (reduce_points (length pts - 1) t pts))"

definition sampled_length :: "nat \<Rightarrow> vertex edge \<Rightarrow> real" where
  "sampled_length n e =
     sum_list (map (\<lambda>k. norm2 (vsub (curve_point e (real (k + 1) / real n)) (curve_point e (real k / real n))))
                   [0 ..< n])"

definition length_e :: "nat \<Rightarrow> vertex edge \<Rightarrow> real" where
  "length_e n e = (if control_points e = [] then edge_length e else sampled_length n e)"

text \<open>The number of edges in the boundary of a panel of the scene.\<close>

definition boundary_size :: "panel option \<Rightarrow> nat" where
  "boundary_size po = (case po of None \<Rightarrow> 0 | Some p \<Rightarrow> length (p_edges p))"

section \<open>Example patterns\<close>

text \<open>Panels that lie in the plane of the scene as they are drawn, and the scenes and
  interfaces that the statements below are evaluated on.\<close>

definition flat_panel :: "string \<Rightarrow> vertex edge list \<Rightarrow> panel" where
  "flat_panel name es =
     \<lparr>p_name = name, p_edges = es, rotation = ((1, 0, 0), (0, 1, 0), (0, 0, 1)),
      translation = (0, 0, 0)\<rparr>"

definition two_panels :: "vertex edge list \<Rightarrow> vertex edge list \<Rightarrow> scene" where
  "two_panels es1 es2 = [0 \<mapsto> flat_panel ''front'' es1, 1 \<mapsto> flat_panel ''back'' es2]"

definition side_of :: "nat \<Rightarrow> vertex edge list \<Rightarrow> interface" where
  "side_of pid es = \<lparr>i_edges = es, i_panel = replicate (length es) pid\<rparr>"

definition rule_on :: "vertex edge list \<Rightarrow> vertex edge list \<Rightarrow> world" where
  "rule_on es1 es2 = \<lparr>int1 = side_of 0 es1, int2 = side_of 1 es2, scene = two_panels es1 es2\<rparr>"

text \<open>A straight edge with a given \<open>geometric_id\<close>.\<close>

definition edge_with_id :: "nat \<Rightarrow> vertex \<Rightarrow> vertex \<Rightarrow> vertex edge" where
  "edge_with_id gid s e = (Edge s e)\<lparr>geometric_id := gid\<rparr>"

text \<open>The T-stitch of one edge of length 10 against two edges of the lengths 4 and 6.\<close>

definition t_stitch :: world where
  "t_stitch = rule_on [edge_with_id 3 (0, 0) (10, 0)]
                      [edge_with_id 1 (0, 0) (4, 0), edge_with_id 2 (4, 0) (10, 0)]"

text \<open>An arched edge over a chord of length 6, whose curve passes through \<open>(3, 4)\<close>, against two
  straight edges of the lengths 2 and 4.\<close>

definition arch_stitch :: world where
  "arch_stitch = rule_on [CurveEdge (0, 0) (6, 0) [(1 / 2, 4 / 3)]]
                         [Edge (0, 0) (2, 0), Edge (2, 0) (6, 0)]"

text \<open>Two sides of two edges each and of the same total length 10, with the inner vertex at 3
  on one side and at 5 on the other; and two sides with the inner vertex at 4 on both.\<close>

definition uneven_stitch :: world where
  "uneven_stitch = rule_on [Edge (0, 0) (3, 0), Edge (3, 0) (10, 0)]
                           [Edge (0, 0) (5, 0), Edge (5, 0) (10, 0)]"

definition even_stitch :: world where
  "even_stitch = rule_on [edge_with_id 1 (0, 0) (4, 0), edge_with_id 2 (4, 0) (10, 0)]
                         [edge_with_id 5 (0, 0) (4, 0), edge_with_id 6 (4, 0) (10, 0)]"

section \<open>Properties of the edge factory\<close>

lemma Edge_sel [simp]:
  "start (Edge a b) = a" "endv (Edge a b) = b" "control_points (Edge a b) = []"
  "geometric_id (Edge a b) = 0"
  by (simp_all add: Edge_def)

lemma chain_from_chained: "isChained (chain_from v vs)"
proof (induction vs arbitrary: v)
  case Nil
  then show ?case by simp
next
  case (Cons w ws)
  then show ?case by (cases ws) (simp_all add: Edge_def)
qed

lemma from_verts_chain:
  assumes "vs \<noteq> []"
  shows "from_verts (v # vs) False = Inr (chain_from v vs)"
proof -
  obtain w ws where vs: "vs = w # ws"
    using assms by (cases vs) auto
  have "isChained (chain_from v (w # ws))"
    by (rule chain_from_chained)
  then show ?thesis
    by (simp add: vs)
qed

lemma length_chain_from [simp]: "length (chain_from v vs) = length vs"
  by (induction vs arbitrary: v) simp_all

lemma length_fraction_verts [simp]: "length (fraction_verts p vec fs) = length fs"
  by (induction fs arbitrary: p) (simp_all add: Let_def)

lemma norm2_scale: "norm2 (c * fst v, c * snd v) = \<bar>c\<bar> * norm2 v"
proof -
  have "(c * fst v)\<^sup>2 + (c * snd v)\<^sup>2 = c\<^sup>2 * ((fst v)\<^sup>2 + (snd v)\<^sup>2)"
    by (simp add: power_mult_distrib distrib_left)
  then show ?thesis
    by (simp add: norm2_def real_sqrt_mult)
qed

lemma edge_length_Edge: "edge_length (Edge a b) = norm2 (vsub b a)"
  by (simp add: edge_length_def Edge_def)

lemma lengths_chain_fractions:
  "map edge_length (chain_from p (fraction_verts p vec fs @ [e])) =
     map (\<lambda>f. \<bar>f\<bar> * norm2 vec) fs @
     [norm2 (vsub e (fst p + sum_list fs * fst vec, snd p + sum_list fs * snd vec))]"
proof (induction fs arbitrary: p)
  case Nil
  then show ?case by (simp add: edge_length_Edge)
next
  case (Cons f fs)
  have step: "edge_length (Edge p (fst p + f * fst vec, snd p + f * snd vec)) = \<bar>f\<bar> * norm2 vec"
    using norm2_scale [of f vec] by (simp add: edge_length_Edge vsub_def)
  show ?case
    using Cons.IH [of "(fst p + f * fst vec, snd p + f * snd vec)"] step
    by (simp add: Let_def algebra_simps)
qed

lemma chain_from_start: "vs \<noteq> [] \<Longrightarrow> start (hd (chain_from v vs)) = v"
  by (cases vs) (simp_all add: Edge_def)

lemma chain_from_Nil [simp]: "chain_from v vs = [] \<longleftrightarrow> vs = []"
  by (cases vs) simp_all

lemma chain_from_end: "vs \<noteq> [] \<Longrightarrow> endv (last (chain_from v vs)) = last vs"
  by (induction vs arbitrary: v) (auto simp: Edge_def)

lemma from_fractions_ok:
  assumes "close_enough (sum_list (map abs fracs)) 1 (1 / 10000)"
  shows "from_fractions s e fracs =
           Inr (chain_from s (fraction_verts s (vsub e s) (butlast (map abs fracs)) @ [e]))"
  using assms by (simp add: from_fractions_def Let_def from_verts_chain)

lemma from_fractions_fails_iff:
  "(\<exists>err. from_fractions s e fracs = Inl err) \<longleftrightarrow>
     \<not> close_enough (sum_list (map abs fracs)) 1 (1 / 10000)"
  by (cases "close_enough (sum_list (map abs fracs)) 1 (1 / 10000)")
     (simp_all add: from_fractions_ok, simp add: from_fractions_def Let_def)

lemma last_len: "norm2 (vsub e (fst s + c * fst (vsub e s), snd s + c * snd (vsub e s))) = \<bar>1 - c\<bar> * norm2 (vsub e s)"
proof -
  have "vsub e (fst s + c * fst (vsub e s), snd s + c * snd (vsub e s)) =
        ((1 - c) * fst (vsub e s), (1 - c) * snd (vsub e s))"
    by (simp add: vsub_def algebra_simps)
  then show ?thesis by (simp only: norm2_scale)
qed

lemma from_fractions_lengths:
  assumes "from_fractions s e fracs = Inr es"
  shows "map edge_length es =
           map (\<lambda>f. \<bar>f\<bar> * norm2 (vsub e s)) (butlast fracs) @
           [\<bar>1 - sum_list (map abs (butlast fracs))\<bar> * norm2 (vsub e s)]"
proof -
  have c: "close_enough (sum_list (map abs fracs)) 1 (1 / 10000)"
    using assms from_fractions_fails_iff [of s e fracs] by (cases ?thesis) auto
  have es: "es = chain_from s (fraction_verts s (vsub e s) (butlast (map abs fracs)) @ [e])"
    using assms from_fractions_ok [OF c, of s e] by simp
  show ?thesis
    unfolding es lengths_chain_fractions last_len
    by (simp add: map_butlast [symmetric] comp_def)
qed

text \<open>
  C4 (amended). \<^verbatim>\<open>from_fractions\<close> raises exactly when the absolute values of the
  fractions sum to something that differs from 1 by more than 1e-4; single fractions are
  not range-checked. For fractions in (0,1] whose sum is within 1e-4 of 1 it returns a chain
  of as many straight edges from \<open>start\<close> to \<open>end\<close>: every edge but the last has length
  \<open>fracs[i] * |end - start|\<close>, the last one closes the chain to \<open>end\<close>. The lengths sum
  to \<open>|end - start|\<close> when the fractions but the last sum to at most 1, and every length is
  \<open>fracs[i] * |end - start|\<close> when the fractions sum to 1.
\<close>

theorem from_fractions_contract:
  "((\<exists>err. from_fractions s e fracs = Inl err) \<longleftrightarrow>
      \<not> \<bar>sum_list (map abs fracs) - 1\<bar> \<le> 1 / 10000) \<and>
   ((\<forall>f \<in> set fracs. 0 < f \<and> f \<le> 1) \<and> \<bar>sum_list fracs - 1\<bar> \<le> 1 / 10000 \<longrightarrow>
      (\<exists>es. from_fractions s e fracs = Inr es \<and> length es = length fracs \<and>
         start (hd es) = s \<and> endv (last es) = e \<and> isChained es \<and>
         control_points ` set es \<subseteq> {[]} \<and>
         map edge_length es =
           map (\<lambda>f. f * norm2 (vsub e s)) (butlast fracs) @
           [\<bar>1 - sum_list (butlast fracs)\<bar> * norm2 (vsub e s)] \<and>
         (sum_list (butlast fracs) \<le> 1 \<longrightarrow> sum_list (map edge_length es) = norm2 (vsub e s)) \<and>
         (sum_list fracs = 1 \<longrightarrow> map edge_length es = map (\<lambda>f. f * norm2 (vsub e s)) fracs)))"
proof (intro conjI impI)
  show "(\<exists>err. from_fractions s e fracs = Inl err) \<longleftrightarrow>
      \<not> \<bar>sum_list (map abs fracs) - 1\<bar> \<le> 1 / 10000"
    using from_fractions_fails_iff [of s e fracs] by (simp add: close_enough_def)
next
  assume valid: "(\<forall>f \<in> set fracs. 0 < f \<and> f \<le> 1) \<and> \<bar>sum_list fracs - 1\<bar> \<le> 1 / 10000"
  then have pos: "\<forall>f \<in> set fracs. 0 < f" by blast
  have absid: "map abs fracs = fracs"
    using pos by (induction fracs) auto
  have ne: "fracs \<noteq> []"
    using valid by auto
  have absbl: "map abs (butlast fracs) = butlast fracs"
    using absid by (metis map_butlast)
  define es where "es = chain_from s (fraction_verts s (vsub e s) (butlast fracs) @ [e])"
  have ok: "from_fractions s e fracs = Inr es"
    using valid from_fractions_ok [of fracs s e] by (simp add: close_enough_def absid es_def)
  have len: "length es = length fracs"
    using ne by (simp add: es_def)
  have lens: "map edge_length es =
           map (\<lambda>f. f * norm2 (vsub e s)) (butlast fracs) @
           [\<bar>1 - sum_list (butlast fracs)\<bar> * norm2 (vsub e s)]"
  proof -
    have "map (\<lambda>f. \<bar>f\<bar> * norm2 (vsub e s)) (butlast fracs) =
          map (\<lambda>f. f * norm2 (vsub e s)) (butlast fracs)"
      using pos by (auto dest!: in_set_butlastD)
    then show ?thesis
      using from_fractions_lengths [OF ok] by (simp add: absbl)
  qed
  have total: "sum_list (map edge_length es) = norm2 (vsub e s)" if "sum_list (butlast fracs) \<le> 1"
  proof -
    have "sum_list (map (\<lambda>f. f * norm2 (vsub e s)) (butlast fracs)) =
          sum_list (butlast fracs) * norm2 (vsub e s)"
      by (simp add: sum_list_mult_const)
    then show ?thesis
      using that by (simp add: lens algebra_simps)
  qed
  have exact: "map edge_length es = map (\<lambda>f. f * norm2 (vsub e s)) fracs" if "sum_list fracs = 1"
  proof -
    have split: "fracs = butlast fracs @ [last fracs]"
      using ne by simp
    have "sum_list fracs = sum_list (butlast fracs) + last fracs"
      by (subst split) simp
    then have "1 - sum_list (butlast fracs) = last fracs"
      using that by simp
    moreover have "0 < last fracs"
      using pos ne by simp
    ultimately have "\<bar>1 - sum_list (butlast fracs)\<bar> = last fracs"
      by simp
    then have "map edge_length es = map (\<lambda>f. f * norm2 (vsub e s)) (butlast fracs @ [last fracs])"
      by (simp add: lens)
    then show ?thesis
      using split by simp
  qed
  have cps: "control_points ` set (chain_from v vs) \<subseteq> {[]}" for v :: vertex and vs
    by (induction vs arbitrary: v) (auto simp: Edge_def)
  show "\<exists>es. from_fractions s e fracs = Inr es \<and> length es = length fracs \<and>
         start (hd es) = s \<and> endv (last es) = e \<and> isChained es \<and>
         control_points ` set es \<subseteq> {[]} \<and>
         map edge_length es =
           map (\<lambda>f. f * norm2 (vsub e s)) (butlast fracs) @
           [\<bar>1 - sum_list (butlast fracs)\<bar> * norm2 (vsub e s)] \<and>
         (sum_list (butlast fracs) \<le> 1 \<longrightarrow> sum_list (map edge_length es) = norm2 (vsub e s)) \<and>
         (sum_list fracs = 1 \<longrightarrow> map edge_length es = map (\<lambda>f. f * norm2 (vsub e s)) fracs)"
    using ok len lens total exact cps [of s]
    by (intro exI [of _ es]) (simp add: es_def chain_from_start chain_from_end chain_from_chained)
qed

text \<open>The contract at the fractions 0.4 and 0.6 of a segment of length 10, and at 1, 1.\<close>

theorem from_fractions_contract_witness:
  "(\<exists>es. from_fractions (0, 0) (10, 0) [2 / 5, 3 / 5] = Inr es \<and> length es = 2 \<and>
      map edge_length es = [4, 6]) \<and>
   (\<exists>err. from_fractions (0, 0) (10, 0) [1, 1] = Inl err)"
proof -
  have n: "norm2 (vsub (10, 0) (0, 0)) = 10"
    by (simp add: norm2_def vsub_def real_sqrt_unique)
  have v: "(\<forall>f \<in> set [2 / 5, 3 / 5 :: real]. 0 < f \<and> f \<le> 1) \<and>
           \<bar>sum_list [2 / 5, 3 / 5 :: real] - 1\<bar> \<le> 1 / 10000"
    by simp
  have a: "\<exists>es. from_fractions (0, 0) (10, 0) [2 / 5, 3 / 5] = Inr es \<and> length es = 2 \<and>
      map edge_length es = [4, 6]"
    using from_fractions_contract [of "(0, 0)" "(10, 0)" "[2 / 5, 3 / 5]"] v n by auto
  have b: "\<exists>err. from_fractions (0, 0) (10, 0) [1, 1] = Inl err"
    using from_fractions_contract [of "(0, 0)" "(10, 0)" "[1, 1]"] by simp
  show ?thesis using a b by blast
qed

text \<open>
  C4 as stated fails: the fractions 0.5 and -0.5 neither lie in (0,1] nor sum to 1, and
  \<^verbatim>\<open>from_fractions\<close> returns two edges of length 5.
\<close>

theorem from_fractions_range_counterexample:
  "\<not> (0 < (- 1 / 2 :: real)) \<and> sum_list [1 / 2, - 1 / 2 :: real] \<noteq> 1 \<and>
   from_fractions (0, 0) (10, 0) [1 / 2, - 1 / 2] = Inr [Edge (0, 0) (5, 0), Edge (5, 0) (10, 0)]"
  by (simp add: from_fractions_def close_enough_def vsub_def Let_def)

lemma sqrt16: "sqrt 16 = 4"
  by (rule real_sqrt_unique) simp_all

text \<open>
  C3 (amended). When \<open>|depth| \<ge> |width| / 2\<close> (so whenever \<open>0 \<le> width / 2 \<le> depth\<close>),
  \<^verbatim>\<open>dart_shape\<close> returns the two edges through \<open>(0,0)\<close>,
  \<open>(width/2, -sqrt(depth\<^sup>2 - (width/2)\<^sup>2))\<close> and \<open>(width,0)\<close>; otherwise it raises
  nothing and returns two edges whose apex has the ordinate \<^verbatim>\<open>nan\<close>.
\<close>

theorem dart_shape_contract:
  "(\<bar>width\<bar> / 2 \<le> \<bar>depth\<bar> \<longrightarrow>
      dart_shape width depth =
        Inr [Edge (Fin 0, Fin 0) (Fin (width / 2), Fin (- sqrt (depth\<^sup>2 - (width / 2)\<^sup>2))),
             Edge (Fin (width / 2), Fin (- sqrt (depth\<^sup>2 - (width / 2)\<^sup>2))) (Fin width, Fin 0)]) \<and>
   (\<bar>depth\<bar> < \<bar>width\<bar> / 2 \<longrightarrow>
      dart_shape width depth =
        Inr [Edge (Fin 0, Fin 0) (Fin (width / 2), NaN), Edge (Fin (width / 2), NaN) (Fin width, Fin 0)])"
proof -
  have "(width / 2)\<^sup>2 \<le> depth\<^sup>2 \<longleftrightarrow> \<bar>width\<bar> / 2 \<le> \<bar>depth\<bar>"
    using abs_le_square_iff [of "width / 2" depth] by simp
  then show ?thesis
    by (auto simp: dart_shape_def np_sqrt_def Let_def)
qed

text \<open>The apex of \<^verbatim>\<open>dart_shape(6, 5)\<close> is \<open>(3, -4)\<close>; \<^verbatim>\<open>dart_shape(10, 3)\<close> has a \<^verbatim>\<open>nan\<close> apex.\<close>

theorem dart_shape_contract_witness:
  "dart_shape 6 5 = Inr [Edge (Fin 0, Fin 0) (Fin 3, Fin (- 4)), Edge (Fin 3, Fin (- 4)) (Fin 6, Fin 0)] \<and>
   dart_shape 10 3 = Inr [Edge (Fin 0, Fin 0) (Fin 5, NaN), Edge (Fin 5, NaN) (Fin 10, Fin 0)]"
  using dart_shape_contract [of 6 5] dart_shape_contract [of 10 3] sqrt16
  by (simp add: power2_eq_square)

text \<open>
  C3 as stated fails: with depth 3 below half the width 10, \<^verbatim>\<open>dart_shape\<close> returns a
  shape and no error.
\<close>

theorem dart_shape_no_constraint_error:
  "(3 :: real) < 10 / 2 \<and> \<not> isl (dart_shape 10 3) \<and>
   dart_shape 10 3 = Inr [Edge (Fin 0, Fin 0) (Fin 5, NaN), Edge (Fin 5, NaN) (Fin 10, Fin 0)]"
  by (simp add: dart_shape_def np_sqrt_def Let_def power2_eq_square)

section \<open>Properties of the numeric solves and darts\<close>

lemma cos_top_angle: "cos (pi - 2 * \<bar>arctan x\<bar>) = - ((1 - x\<^sup>2) / (1 + x\<^sup>2))"
proof -
  have pos: "0 < 1 + x\<^sup>2"
    by (simp add: add_pos_nonneg)
  have "cos (2 * \<bar>arctan x\<bar>) = cos \<bar>2 * arctan x\<bar>"
    by (simp add: abs_mult)
  also have "\<dots> = cos (2 * arctan x)"
    by (rule cos_abs_real)
  also have "\<dots> = 2 * (cos (arctan x))\<^sup>2 - 1"
    by (rule cos_double_cos)
  also have "\<dots> = 2 / (1 + x\<^sup>2) - 1"
    using pos by (simp add: cos_arctan power_divide)
  also have "\<dots> = (1 - x\<^sup>2) / (1 + x\<^sup>2)"
    using pos by (simp add: field_simps)
  finally show ?thesis by simp
qed

lemma rel_to_abs_on_chord:
  "rel_to_abs_coords s e (c, 0) = vadd s (vscale (c / norm2 (vsub e s)) (vsub e s))"
  by (simp add: rel_to_abs_coords_def Let_def vadd_def vscale_def)

lemma norm2_zero_iff: "norm2 v = 0 \<longleftrightarrow> v = (0, 0)"
  by (cases v) (simp add: norm2_def real_sqrt_eq_zero_cancel_iff sum_power2_eq_zero_iff)

lemma cos_top_dart:
  assumes "(width / 2)\<^sup>2 < depth\<^sup>2"
  shows "cos (pi - 2 * \<bar>arctan (width / 2 / sqrt (depth\<^sup>2 - (width / 2)\<^sup>2))\<bar>) =
         - (1 - width\<^sup>2 / (2 * depth\<^sup>2))"
proof -
  define a where "a = (width / 2)\<^sup>2"
  define q where "q = depth\<^sup>2 - a"
  have q: "0 < q" using assms by (simp add: q_def a_def)
  have a: "0 \<le> a" by (simp add: a_def)
  have d: "depth\<^sup>2 = q + a" by (simp add: q_def)
  have w: "width\<^sup>2 = 4 * a" by (simp add: a_def power_divide)
  have x2: "(width / 2 / sqrt q)\<^sup>2 = a / q"
    using q by (simp add: power_divide a_def)
  have n: "1 - a / q = (q - a) / q" and m: "1 + a / q = (q + a) / q"
    using q by (simp_all add: field_simps)
  have "(1 - a / q) / (1 + a / q) = (q - a) / (q + a)"
    unfolding n m using q by simp
  also have "\<dots> = 1 - 4 * a / (2 * (q + a))"
    using q a by (simp add: field_simps)
  finally have ratio: "(1 - a / q) / (1 + a / q) = 1 - 4 * a / (2 * (q + a))" .
  have qq: "depth\<^sup>2 - (width / 2)\<^sup>2 = q"
    by (simp add: q_def a_def)
  have lhs: "cos (pi - 2 * \<bar>arctan (width / 2 / sqrt q)\<bar>) = - ((1 - a / q) / (1 + a / q))"
    unfolding cos_top_angle x2 ..
  have rhs: "1 - width\<^sup>2 / (2 * depth\<^sup>2) = 1 - 4 * a / (2 * (q + a))"
    unfolding d w ..
  show ?thesis
    unfolding qq lhs rhs ratio ..
qed


lemma norm2_horizontal: "norm2 (a, 0) = \<bar>a\<bar>"
  by (simp add: norm2_def)

lemma on_chord_eq_end:
  assumes "s \<noteq> e"
  shows "vadd s (vscale (c / norm2 (vsub e s)) (vsub e s)) = e \<longleftrightarrow> c = norm2 (vsub e s)"
proof -
  have L: "norm2 (vsub e s) \<noteq> 0"
    using assms by (cases s, cases e) (auto simp: norm2_zero_iff vsub_def)
  obtain s1 s2 e1 e2 where se: "s = (s1, s2)" "e = (e1, e2)"
    by (cases s, cases e) blast
  define k where "k = c / norm2 (vsub e s)"
  have "vadd s (vscale k (vsub e s)) = e \<longleftrightarrow> (k - 1) * (e1 - s1) = 0 \<and> (k - 1) * (e2 - s2) = 0"
    by (auto simp: se vadd_def vscale_def vsub_def algebra_simps)
  also have "\<dots> \<longleftrightarrow> k = 1"
    using assms by (auto simp: se)
  also have "\<dots> \<longleftrightarrow> c = norm2 (vsub e s)"
    using L by (auto simp: k_def)
  finally show ?thesis by (simp add: k_def)
qed

text \<open>
  C8 (amended). \<^verbatim>\<open>side_with_dart_by_len\<close> raises whenever the residual that the minimiser
  reports exceeds \<open>tol\<close>, whatever the success flag says. \<^verbatim>\<open>curve_from_extreme\<close> raises
  nothing of its own: whatever result the minimiser reports, successful or not, its
  ordinate becomes the control point of the curve that is returned.
\<close>

theorem solve_failure_contract:
  "(dart_position + (target_len - dart_position) < norm2 (vsub s e) \<and>
    dart_position + (target_len - dart_position) \<noteq> 0 \<and>
    minimize (\<lambda>coords. Inr (fit_dart coords s e dart_position (target_len - dart_position) depth dart_angle))
      (let L = norm2 (vsub s e);
           v = vscale (1 / L) (vsub e s);
           p0 = vadd s (vscale (L * (dart_position / (dart_position + (target_len - dart_position)))) v)
       in (p0, vadd p0 (vscale depth (snd v, - fst v)), p0)) = Inr out \<and>
    tol < \<bar>opt_fun out\<bar> \<longrightarrow>
      side_with_dart_by_len minimize reflect s e target_len depth dart_position dart_angle right tol =
        Inl DartSolveError) \<and>
   (minimize2 (\<lambda>cp_y. fit_y_extremum cp_y (abs_to_rel_2d s e target_extreme))
      (snd (abs_to_rel_2d s e target_extreme)) = Inr out2 \<longrightarrow>
      curve_from_extreme minimize2 s e target_extreme =
        Inr (CurveEdge s e [(fst (abs_to_rel_2d s e target_extreme), opt_x out2)]))"
  by (auto simp: side_with_dart_by_len_def curve_from_extreme_def Let_def close_enough_def)

lemma abs_to_rel_example: "abs_to_rel_2d (0, 0) (1, 0) (1 / 2, 1) = (1 / 2, 1)"
  by (simp add: abs_to_rel_2d_def Let_def vsub_def vscale_def dot2_def cross2_def norm2_def)

text \<open>
  C8 as stated fails: a minimiser that stops at the initial guess and reports failure, with
  the residual 1/4, makes \<^verbatim>\<open>curve_from_extreme\<close> return a curve.
\<close>

theorem unsuccessful_extreme_fit_returns:
  "\<not> opt_success \<lparr>opt_x = 1, opt_fun = 1 / 4, opt_success = False\<rparr> \<and>
   curve_from_extreme (\<lambda>f x0. Inr \<lparr>opt_x = x0, opt_fun = 1 / 4, opt_success = False\<rparr>)
      (0, 0) (1, 0) (1 / 2, 1) = Inr (CurveEdge (0, 0) (1, 0) [(1 / 2, 1)])"
  by (simp add: curve_from_extreme_def Let_def abs_to_rel_example)

text \<open>
  The amended C8 at a minimiser that stops at its initial guess and reports failure.
\<close>

theorem solve_failure_contract_witness:
  "side_with_dart_by_len (\<lambda>f x0. Inr \<lparr>opt_x = x0, opt_fun = 1, opt_success = False\<rparr>) (\<lambda>a b es. es)
      (0, 0) (50, 0) 35 10 25 90 True (1 / 10000) = Inl DartSolveError \<and>
   curve_from_extreme (\<lambda>f x0. Inr \<lparr>opt_x = x0, opt_fun = 1 / 4, opt_success = False\<rparr>)
      (0, 0) (1, 0) (1 / 2, 1) = Inr (CurveEdge (0, 0) (1, 0) [(1 / 2, 1)])"
proof -
  have a: "side_with_dart_by_len (\<lambda>f x0. Inr \<lparr>opt_x = x0, opt_fun = 1, opt_success = False\<rparr>) (\<lambda>a b es. es)
      (0, 0) (50, 0) 35 10 25 90 True (1 / 10000) = Inl DartSolveError"
    using solve_failure_contract [where s = "(0, 0)" and e = "(50, 0)" and dart_position = 25
        and target_len = 35 and depth = 10 and dart_angle = 90 and tol = "1 / 10000"
        and minimize = "\<lambda>f x0. Inr \<lparr>opt_x = x0, opt_fun = 1, opt_success = False\<rparr>"
        and out = "\<lparr>opt_x = ((250 / 7, 0), (250 / 7, - 10), (250 / 7, 0)), opt_fun = 1, opt_success = False\<rparr>"
        and reflect = "\<lambda>a b es. es" and right = True, THEN conjunct1]
    by (simp add: Let_def vsub_def vadd_def vscale_def norm2_horizontal)
  have b: "curve_from_extreme (\<lambda>f x0. Inr \<lparr>opt_x = x0, opt_fun = 1 / 4, opt_success = False\<rparr>)
      (0, 0) (1, 0) (1 / 2, 1) = Inr (CurveEdge (0, 0) (1, 0) [(1 / 2, 1)])"
    using solve_failure_contract [where s = "(0, 0)" and e = "(1, 0)" and target_extreme = "(1 / 2, 1)"
        and ?minimize2.0 = "\<lambda>f x0. Inr \<lparr>opt_x = x0, opt_fun = 1 / 4, opt_success = False\<rparr>"
        and ?out2.0 = "\<lparr>opt_x = 1, opt_fun = 1 / 4, opt_success = False\<rparr>", THEN conjunct2]
    by (simp add: abs_to_rel_example)
  show ?thesis using a b by simp
qed

section \<open>Properties of the side with a dart of given width\<close>

lemma from_verts_three: "from_verts [a, b, c] False = Inr [Edge a b, Edge b c]"
  using from_verts_chain [of "[b, c]" a] by simp

lemma dart_points_long_side:
  assumes "(width / 2)\<^sup>2 < depth\<^sup>2"
    and "side0 = d0 + depth * width / (2 * sqrt (depth\<^sup>2 - (width / 2)\<^sup>2))"
    and "side1 = d1 + depth * width / (2 * sqrt (depth\<^sup>2 - (width / 2)\<^sup>2))"
  shows "fst (dart_points s e width depth (sqrt (depth\<^sup>2 - (width / 2)\<^sup>2)) d0 d1) =
         sqrt (side0\<^sup>2 + side1\<^sup>2 + 2 * side0 * side1 * (1 - width\<^sup>2 / (2 * depth\<^sup>2)))"
proof -
  have "side0\<^sup>2 + side1\<^sup>2 - 2 * side0 * side1 * - (1 - width\<^sup>2 / (2 * depth\<^sup>2)) =
        side0\<^sup>2 + side1\<^sup>2 + 2 * side0 * side1 * (1 - width\<^sup>2 / (2 * depth\<^sup>2))"
    by (simp add: algebra_simps)
  then show ?thesis
    unfolding dart_points_def Let_def fst_conv cos_top_dart [OF assms(1)]
      assms(2) [symmetric] assms(3) [symmetric]
    by simp
qed

lemma dart_points_new_end:
  "snd (snd (snd (snd (dart_points s e width dart_side depth_perp d0 d1)))) =
   vadd s (vscale (fst (dart_points s e width dart_side depth_perp d0 d1) / norm2 (vsub e s)) (vsub e s))"
  unfolding dart_points_def Let_def fst_conv snd_conv rel_to_abs_on_chord ..

lemma chord_nonzero: "s \<noteq> e \<Longrightarrow> norm2 (vsub e s) \<noteq> 0"
  by (cases s, cases e) (auto simp: norm2_zero_iff vsub_def)

lemma by_width_list_end:
  assumes "dart_position \<le> norm2 (vsub e s)" and "(width / 2)\<^sup>2 < depth\<^sup>2" and "s \<noteq> e"
    and "dart_points s e width depth (sqrt (depth\<^sup>2 - (width / 2)\<^sup>2)) dart_position
           (norm2 (vsub e s) - dart_position) = (ls, p1, p_tip, p2, ne)"
    and "ls \<noteq> 0" and "p1 \<noteq> p2"
  shows "side_with_dart_by_width ops s (ListV e) width depth dart_position opening_angle right modify =
     (let g = redistribute ops modify (if right then deg2rad (180 - opening_angle) else - 1)
                (vsub ne e) p1 p2 s e ne
                (dart_geometry s (if right then [p1, p_tip, p2] else seq_reflect ops s ne [p1, p_tip, p2]) ne)
      in Inr (Dart g (butlast (tl (edges_of g))) [hd (edges_of g), last (edges_of g)]))"
proof -
  have dp: "sqrt (depth\<^sup>2 - (width / 2)\<^sup>2) \<noteq> 0" "\<not> depth\<^sup>2 - (width / 2)\<^sup>2 < 0"
    using assms(2) by simp_all
  show ?thesis
    unfolding side_with_dart_by_width_def
    using assms(1,5,6) chord_nonzero [OF assms(3)] dp
    by (simp add: np_sqrt_def Let_def assms(4) from_verts_three)
qed

text \<open>
  With a tuple as \<open>end\<close>, as the declared default is, a call that passes the check of the
  dart position stops at line 155 with a TypeError.
\<close>

lemma by_width_tuple_end_raises:
  assumes "dart_position \<le> norm2 (vsub e s)"
  shows "side_with_dart_by_width ops s (TupleV e) width depth dart_position opening_angle right modify =
         Inl TypeError"
  using assms by (simp add: side_with_dart_by_width_def Let_def)

lemma rotate_about_pivot: "rotate_about p a p = p"
  by (cases p) (simp add: rotate_about_def rot2_def vadd_def vsub_def)

lemma rotate_about_zero: "rotate_about p 0 v = v"
  by (cases p, cases v) (simp add: rotate_about_def rot2_def vadd_def vsub_def)

lemma dart_geometry_three:
  "dart_geometry s [a, b, c] e =
     \<lparr>g_verts = [s, a, b, c, e], g_seq = [(0, 1), (1, 2), (2, 3), (3, 4)]\<rparr>"
  by (simp add: dart_geometry_def Let_def upt_rec)

lemma plane_both:
  "g_verts (redistribute (plane_ops ang) ''both'' ad sh p1 p2 v0 v1 ne (dart_geometry s [a, b, c] e)) =
     [rotate_about (vadd a (vscale (- 1 / 2) sh)) (- ad / 2) (vadd s (vscale (- 1 / 2) sh)),
      vadd a (vscale (- 1 / 2) sh), vadd b (vscale (- 1 / 2) sh), vadd c (vscale (- 1 / 2) sh),
      rotate_about (vadd c (vscale (- 1 / 2) sh)) (ad / 2) (vadd e (vscale (- 1 / 2) sh))]"
  by (simp add: dart_geometry_three redistribute_def plane_ops_def move_verts_def seq_addresses_def
      Let_def upt_rec)

lemma plane_start:
  "last (g_verts (redistribute (plane_ops ang) ''start'' ad sh p1 p2 v0 v1 ne (dart_geometry s [a, b, c] e))) =
     vadd e (vscale (- 1) sh)"
  by (simp add: dart_geometry_three redistribute_def plane_ops_def move_verts_def seq_addresses_def
      Let_def upt_rec rotate_about_pivot)

lemma plane_end:
  "hd (g_verts (redistribute (plane_ops ang) ''end'' ad sh p1 p2 v0 v1 ne (dart_geometry s [a, b, c] e))) = s"
  by (simp add: dart_geometry_three redistribute_def plane_ops_def move_verts_def seq_addresses_def
      Let_def upt_rec rotate_about_pivot)

lemma sin_top_angle: "sin (pi - 2 * \<bar>arctan x\<bar>) = 2 * \<bar>x\<bar> / (1 + x\<^sup>2)"
proof -
  have pos: "0 < 1 + x\<^sup>2"
    by (simp add: add_pos_nonneg)
  have ab: "\<bar>arctan x\<bar> = arctan \<bar>x\<bar>"
    by (cases "0 \<le> x") (simp_all add: arctan_minus abs_if)
  have "sin (pi - 2 * \<bar>arctan x\<bar>) = sin (2 * arctan \<bar>x\<bar>)"
    unfolding ab by (rule sin_pi_minus)
  also have "\<dots> = 2 * sin (arctan \<bar>x\<bar>) * cos (arctan \<bar>x\<bar>)"
    by (rule sin_double)
  also have "\<dots> = 2 * (\<bar>x\<bar> / sqrt (1 + x\<^sup>2)) * (1 / sqrt (1 + x\<^sup>2))"
    by (simp add: sin_arctan cos_arctan)
  also have "\<dots> = 2 * \<bar>x\<bar> / (sqrt (1 + x\<^sup>2) * sqrt (1 + x\<^sup>2))"
    by simp
  also have "sqrt (1 + x\<^sup>2) * sqrt (1 + x\<^sup>2) = 1 + x\<^sup>2"
    using pos by simp
  finally show ?thesis .
qed

lemma norm2_vertical: "norm2 (0, a) = \<bar>a\<bar>"
  by (simp add: norm2_def)

lemma dart_points_example:
  "dart_points (0, 0) (100, 0) 6 5 4 50 50 = (86, (40, 30), (43, 26), (46, 30), (86, 0))"
proof -
  have ct: "cos (pi - 2 * \<bar>arctan (6 / 2 / 4 :: real)\<bar>) = - (7 / 25)"
    unfolding cos_top_angle by (simp add: power2_eq_square)
  have st: "sin (pi - 2 * \<bar>arctan (6 / 2 / 4 :: real)\<bar>) = 24 / 25"
    unfolding sin_top_angle by (simp add: power2_eq_square)
  have dl: "5 * 6 / (2 * 4) = (15 / 4 :: real)"
    by simp
  have ls: "sqrt ((50 + 15 / 4)\<^sup>2 + (50 + 15 / 4)\<^sup>2 - 2 * (50 + 15 / 4) * (50 + 15 / 4) * - (7 / 25)) = (86 :: real)"
    by (rule real_sqrt_unique) (simp_all add: power2_eq_square)
  have s0: "(50 + 15 / 4) * (24 / 25) / 86 = (3 / 5 :: real)"
    by simp
  have "cos (arcsin (3 / 5 :: real)) = sqrt (1 - (3 / 5)\<^sup>2)"
    by (rule cos_arcsin) simp_all
  also have "\<dots> = 4 / 5"
    by (rule real_sqrt_unique) (simp_all add: power2_eq_square)
  finally have ca: "cos (arcsin (3 / 5 :: real)) = 4 / 5" .
  show ?thesis
    unfolding dart_points_def Let_def dl ct st ls s0 ca
    by (simp add: rel_to_abs_coords_def Let_def vsub_def vadd_def vscale_def norm2_horizontal
        norm2_vertical)
qed

lemma seq_reflect_plane: "seq_reflect (plane_ops ang) a b vs = map (reflect_point a b) vs"
  by (simp add: plane_ops_def)

lemma back_to_end: "vadd ne (vscale (- 1) (vsub ne e)) = e"
  by (cases ne, cases e) (simp add: vadd_def vscale_def vsub_def)

text \<open>
  C9 (amended). \<^verbatim>\<open>side_with_dart_by_width\<close> writes to its arguments. Take a side of
  positive length with a list as \<open>end\<close>, a dart with \<open>|depth| > |width| / 2\<close> placed within
  the side, and let lines 119 to 153 compute a nonzero \<open>long_side\<close>, distinct dart points
  \<open>p1\<close>, \<open>p2\<close> and \<open>new_end\<close>. Then \<open>long_side\<close> is the third side of the triangle with the
  sides \<open>side0\<close>, \<open>side1\<close>, and \<open>new_end\<close> is \<open>start + long_side * (end - start) / |end - start|\<close>,
  the vertex that was passed only if \<open>long_side\<close> is the length of the side. In every mode
  and on either side the call returns the geometry that the redistribution of lines 166 to
  182 makes of the side from \<open>start\<close> over the dart to \<open>new_end\<close>: line 155 has put
  \<open>new_end\<close> into the caller's \<open>end\<close> before. With the moving methods read as rigid motions
  in place, the mode \<open>start\<close> leaves \<open>end\<close> at the value that was passed, the mode \<open>end\<close>
  leaves \<open>start\<close> where it was, and the mode \<open>both\<close> with the dart on the right and the
  opening angle 180 moves \<open>start\<close> and \<open>new_end\<close> by \<open>half = - (new_end - end) / 2\<close> each.
\<close>

theorem by_width_shifts_the_ends:
  assumes "dart_position \<le> norm2 (vsub e s)" and "(width / 2)\<^sup>2 < depth\<^sup>2" and "s \<noteq> e"
    and "side0 = dart_position + depth * width / (2 * sqrt (depth\<^sup>2 - (width / 2)\<^sup>2))"
    and "side1 = norm2 (vsub e s) - dart_position + depth * width / (2 * sqrt (depth\<^sup>2 - (width / 2)\<^sup>2))"
    and "dart_points s e width depth (sqrt (depth\<^sup>2 - (width / 2)\<^sup>2)) dart_position
           (norm2 (vsub e s) - dart_position) = (long_side, p1, p_tip, p2, new_end)"
    and "long_side \<noteq> 0" and "p1 \<noteq> p2"
    and "half = vscale (- 1 / 2) (vsub new_end e)"
  shows "long_side = sqrt (side0\<^sup>2 + side1\<^sup>2 + 2 * side0 * side1 * (1 - width\<^sup>2 / (2 * depth\<^sup>2))) \<and>
     new_end = vadd s (vscale (long_side / norm2 (vsub e s)) (vsub e s)) \<and>
     (new_end = e \<longleftrightarrow> long_side = norm2 (vsub e s)) \<and>
     side_with_dart_by_width ops s (ListV e) width depth dart_position opening_angle right modify =
       (let g = redistribute ops modify (if right then deg2rad (180 - opening_angle) else - 1)
                  (vsub new_end e) p1 p2 s e new_end
                  (dart_geometry s (if right then [p1, p_tip, p2]
                                    else seq_reflect ops s new_end [p1, p_tip, p2]) new_end)
        in Inr (Dart g (butlast (tl (edges_of g))) [hd (edges_of g), last (edges_of g)])) \<and>
     hd (g_verts (dart_geometry s dart_verts new_end)) = s \<and>
     last (g_verts (dart_geometry s dart_verts new_end)) = new_end \<and>
     end_after (side_with_dart_by_width (plane_ops ang) s (ListV e) width depth dart_position
        opening_angle right ''start'') = Some e \<and>
     start_after (side_with_dart_by_width (plane_ops ang) s (ListV e) width depth dart_position
        opening_angle right ''end'') = Some s \<and>
     start_after (side_with_dart_by_width (plane_ops ang) s (ListV e) width depth dart_position
        180 True ''both'') = Some (vadd s half) \<and>
     end_after (side_with_dart_by_width (plane_ops ang) s (ListV e) width depth dart_position
        180 True ''both'') = Some (vadd new_end half)"
proof -
  note call = by_width_list_end [OF assms(1,2,3,6,7,8)]
  have ls: "long_side = sqrt (side0\<^sup>2 + side1\<^sup>2 + 2 * side0 * side1 * (1 - width\<^sup>2 / (2 * depth\<^sup>2)))"
    using dart_points_long_side [OF assms(2,4,5), of s e] by (simp add: assms(6))
  have ne: "new_end = vadd s (vscale (long_side / norm2 (vsub e s)) (vsub e s))"
    using dart_points_new_end [of s e width depth "sqrt (depth\<^sup>2 - (width / 2)\<^sup>2)" dart_position
        "norm2 (vsub e s) - dart_position"]
    by (simp add: assms(6))
  have same: "new_end = e \<longleftrightarrow> long_side = norm2 (vsub e s)"
    unfolding ne by (rule on_chord_eq_end [OF assms(3)])
  have hd_g: "hd (g_verts (dart_geometry s dart_verts new_end)) = s"
    and last_g: "last (g_verts (dart_geometry s dart_verts new_end)) = new_end"
    by (simp_all add: dart_geometry_def Let_def)
  have m_start: "end_after (side_with_dart_by_width (plane_ops ang) s (ListV e) width depth dart_position
        opening_angle right ''start'') = Some e"
    unfolding call by (cases right) (simp_all add: Let_def plane_start back_to_end seq_reflect_plane)
  have m_end: "start_after (side_with_dart_by_width (plane_ops ang) s (ListV e) width depth dart_position
        opening_angle right ''end'') = Some s"
    unfolding call by (cases right) (simp_all add: Let_def plane_end seq_reflect_plane)
  have b_start: "start_after (side_with_dart_by_width (plane_ops ang) s (ListV e) width depth dart_position
        oa True ''both'') =
       Some (rotate_about (vadd p1 half) (- deg2rad (180 - oa) / 2) (vadd s half))" for oa
    unfolding call assms(9) by (simp add: Let_def plane_both)
  have b_end: "end_after (side_with_dart_by_width (plane_ops ang) s (ListV e) width depth dart_position
        oa True ''both'') =
       Some (rotate_about (vadd p2 half) (deg2rad (180 - oa) / 2) (vadd new_end half))" for oa
    unfolding call assms(9) by (simp add: Let_def plane_both)
  have b_start0: "start_after (side_with_dart_by_width (plane_ops ang) s (ListV e) width depth dart_position
        180 True ''both'') = Some (vadd s half)"
    unfolding b_start by (simp add: deg2rad_def rotate_about_zero)
  have b_end0: "end_after (side_with_dart_by_width (plane_ops ang) s (ListV e) width depth dart_position
        180 True ''both'') = Some (vadd new_end half)"
    unfolding b_end by (simp add: deg2rad_def rotate_about_zero)
  show ?thesis
    using ls ne same call hd_g last_g m_start m_end b_start0 b_end0 by blast
qed

lemma example_chord: "norm2 (vsub (100, 0) (0, 0)) = 100"
  by (simp add: vsub_def norm2_horizontal)

lemma example_depth_perp: "sqrt (5\<^sup>2 - (6 / 2)\<^sup>2) = 4"
  using sqrt16 by (simp add: power2_eq_square)

text \<open>
  C9 as stated fails: called in the default mode \<open>both\<close> with the side from the list
  \<open>[0,0]\<close> to the list \<open>[100,0]\<close> and a dart of width 6 and depth 5 at position 50,
  \<^verbatim>\<open>side_with_dart_by_width\<close> leaves the caller's \<open>end\<close> at \<open>(93,0)\<close> and the caller's
  \<open>start\<close> at \<open>(7,0)\<close>.
\<close>

theorem by_width_default_mode_moves_end:
  "end_after (side_with_dart_by_width (plane_ops no_turn) (0, 0) (ListV (100, 0)) 6 5 50 180 True ''both'')
     = Some (93, 0) \<and>
   start_after (side_with_dart_by_width (plane_ops no_turn) (0, 0) (ListV (100, 0)) 6 5 50 180 True ''both'')
     = Some (7, 0) \<and>
   end_after (side_with_dart_by_width (plane_ops no_turn) (0, 0) (ListV (100, 0)) 6 5 50 180 True ''both'')
     \<noteq> Some (100, 0)"
proof -
  have "side_with_dart_by_width (plane_ops no_turn) (0, 0) (ListV (100, 0)) 6 5 50 180 True ''both'' =
     (let g = redistribute (plane_ops no_turn) ''both'' (if True then deg2rad (180 - 180) else - 1)
                (vsub (86, 0) (100, 0)) (40, 30) (46, 30) (0, 0) (100, 0) (86, 0)
                (dart_geometry (0, 0) (if True then [(40, 30), (43, 26), (46, 30)]
                   else seq_reflect (plane_ops no_turn) (0, 0) (86, 0) [(40, 30), (43, 26), (46, 30)]) (86, 0))
      in Inr (Dart g (butlast (tl (edges_of g))) [hd (edges_of g), last (edges_of g)]))"
    by (rule by_width_list_end [where ls = 86])
       (simp_all add: example_chord example_depth_perp dart_points_example)
  then show ?thesis
    by (simp add: Let_def plane_both deg2rad_def rotate_about_zero vsub_def vadd_def vscale_def)
qed

text \<open>
  The amended C9 at the side from \<open>[0,0]\<close> to \<open>[100,0]\<close> with a dart of width 6 and depth
  5 at position 50: \<open>long_side\<close> is 86, and the dart opens from \<open>(40,30)\<close> to \<open>(46,30)\<close>.
\<close>

theorem by_width_shifts_the_ends_witness:
  "dart_points (0, 0) (100, 0) 6 5 4 50 50 = (86, (40, 30), (43, 26), (46, 30), (86, 0)) \<and>
   hd (g_verts (dart_geometry (0, 0) [(40, 30), (43, 26), (46, 30)] (86, 0))) = (0, 0) \<and>
   last (g_verts (dart_geometry (0, 0) [(40, 30), (43, 26), (46, 30)] (86, 0))) = (86, 0) \<and>
   end_after (side_with_dart_by_width (plane_ops no_turn) (0, 0) (ListV (100, 0)) 6 5 50 180 True ''start'')
     = Some (100, 0) \<and>
   start_after (side_with_dart_by_width (plane_ops no_turn) (0, 0) (ListV (100, 0)) 6 5 50 180 True ''end'')
     = Some (0, 0) \<and>
   start_after (side_with_dart_by_width (plane_ops no_turn) (0, 0) (ListV (100, 0)) 6 5 50 180 True ''both'')
     = Some (7, 0) \<and>
   end_after (side_with_dart_by_width (plane_ops no_turn) (0, 0) (ListV (100, 0)) 6 5 50 180 True ''both'')
     = Some (93, 0)"
proof -
  have ls: "sqrt ((215 / 4)\<^sup>2 + (215 / 4)\<^sup>2 + 2 * (215 / 4) * (215 / 4) * (1 - 6\<^sup>2 / (2 * 5\<^sup>2))) = (86 :: real)"
    by (rule real_sqrt_unique) (simp_all add: power2_eq_square)
  note inst = by_width_shifts_the_ends [where s = "(0, 0)" and e = "(100, 0)" and width = 6 and depth = 5
      and dart_position = 50 and ?side0.0 = "215 / 4" and ?side1.0 = "215 / 4" and long_side = 86
      and ?p1.0 = "(40, 30)" and p_tip = "(43, 26)" and ?p2.0 = "(46, 30)" and new_end = "(86, 0)"
      and half = "(7, 0)" and ops = "plane_ops no_turn" and ang = no_turn and opening_angle = 180
      and right = True and modify = "''both''" and dart_verts = "[(40, 30), (43, 26), (46, 30)]"]
  have hyps: "50 \<le> norm2 (vsub (100, 0) (0, 0))" "(6 / 2)\<^sup>2 < (5 :: real)\<^sup>2" "(0, 0) \<noteq> (100 :: real, 0 :: real)"
    "215 / 4 = 50 + 5 * 6 / (2 * sqrt (5\<^sup>2 - (6 / 2)\<^sup>2))"
    "215 / 4 = norm2 (vsub (100, 0) (0, 0)) - 50 + 5 * 6 / (2 * sqrt (5\<^sup>2 - (6 / 2)\<^sup>2))"
    "dart_points (0, 0) (100, 0) 6 5 (sqrt (5\<^sup>2 - (6 / 2)\<^sup>2)) 50 (norm2 (vsub (100, 0) (0, 0)) - 50) =
       (86, (40, 30), (43, 26), (46, 30), (86, 0))"
    "(86 :: real) \<noteq> 0" "(40, 30) \<noteq> (46 :: real, 30 :: real)"
    by (simp_all add: example_chord example_depth_perp dart_points_example power2_eq_square)
  have half: "(7, 0) = vscale (- 1 / 2) (vsub (86, 0) (100, 0))"
    by (simp add: vscale_def vsub_def)
  have v: "vadd (0, 0) (7, 0) = (7, 0)" "vadd (86, 0) (7, 0) = (93, 0)"
    by (simp_all add: vadd_def)
  show ?thesis
    using inst [OF hyps half] dart_points_example unfolding v by blast
qed

section \<open>Properties of the stitching rule\<close>

lemma norm3_x: "norm3 (vsub3 (a, b, c) (a', b, c)) = \<bar>a - a'\<bar>"
  by (simp add: norm3_def vsub3_def)

lemma point_flat: "point_to_3D (flat_panel name es) v = (fst v, snd v, 0)"
  by (simp add: point_to_3D_def flat_panel_def)

lemma norm2_horizontal': "norm2 (a, 0) = \<bar>a\<bar>"
  by (simp add: norm2_def)

text \<open>
  C6 (amended). When the first interface has more than one edge, \<^verbatim>\<open>isTraversalMatching\<close>
  is false exactly when the corner-to-corner distance of the reversed pairing is strictly
  smaller than that of the straight pairing; when the first interface has at most one edge
  it is true whatever the distances are.
\<close>

theorem isTraversalMatching_contract:
  "(1 < length (i_edges (int1 w)) \<and>
    first_corner (scene w) (int1 w) = Inr start_1 \<and> first_corner (scene w) (int2 w) = Inr start_2 \<and>
    last_corner (scene w) (int1 w) = Inr end_1 \<and> last_corner (scene w) (int2 w) = Inr end_2 \<longrightarrow>
      isTraversalMatching w =
        Inr (\<not> norm3 (vsub3 start_2 end_1) + norm3 (vsub3 end_2 start_1)
                < norm3 (vsub3 start_2 start_1) + norm3 (vsub3 end_2 end_1))) \<and>
   (length (i_edges (int1 w)) \<le> 1 \<longrightarrow> isTraversalMatching w = Inr True)"
  by (auto simp: isTraversalMatching_def Let_def)

lemma corners_rule_on:
  "es1 \<noteq> [] \<Longrightarrow> first_corner (scene (rule_on es1 es2)) (int1 (rule_on es1 es2)) =
      Inr (fst (start (hd es1)), snd (start (hd es1)), 0)"
  "es2 \<noteq> [] \<Longrightarrow> first_corner (scene (rule_on es1 es2)) (int2 (rule_on es1 es2)) =
      Inr (fst (start (hd es2)), snd (start (hd es2)), 0)"
  "es1 \<noteq> [] \<Longrightarrow> last_corner (scene (rule_on es1 es2)) (int1 (rule_on es1 es2)) =
      Inr (fst (endv (last es1)), snd (endv (last es1)), 0)"
  "es2 \<noteq> [] \<Longrightarrow> last_corner (scene (rule_on es1 es2)) (int2 (rule_on es1 es2)) =
      Inr (fst (endv (last es2)), snd (endv (last es2)), 0)"
  by (cases es1; cases es2;
      simp add: rule_on_def side_of_def two_panels_def first_corner_def last_corner_def point_flat
           split: list.splits)+

text \<open>The amended C6 at two interfaces of two edges each that run against each other, and at
  two single edges that run against each other.\<close>

theorem isTraversalMatching_contract_witness:
  "isTraversalMatching (rule_on [Edge (0, 0) (1, 0), Edge (1, 0) (2, 0)]
                                [Edge (2, 0) (1, 0), Edge (1, 0) (0, 0)]) = Inr False \<and>
   isTraversalMatching (rule_on [Edge (0, 0) (2, 0)] [Edge (2, 0) (0, 0)]) = Inr True"
proof -
  let ?w = "rule_on [Edge (0, 0) (1, 0), Edge (1, 0) (2, 0)] [Edge (2, 0) (1, 0), Edge (1, 0) (0, 0)]"
  have a: "isTraversalMatching ?w = Inr False"
    using isTraversalMatching_contract [where w = ?w and ?start_1.0 = "(0, 0, 0)"
        and ?start_2.0 = "(2, 0, 0)" and ?end_1.0 = "(2, 0, 0)" and ?end_2.0 = "(0, 0, 0)", THEN conjunct1]
    by (simp add: corners_rule_on norm3_x) (simp add: rule_on_def side_of_def Edge_def)
  have b: "isTraversalMatching (rule_on [Edge (0, 0) (2, 0)] [Edge (2, 0) (0, 0)]) = Inr True"
    using isTraversalMatching_contract [where w = "rule_on [Edge (0, 0) (2, 0)] [Edge (2, 0) (0, 0)]",
        THEN conjunct2]
    by (simp add: rule_on_def side_of_def)
  show ?thesis using a b by simp
qed

text \<open>
  C6 as stated fails: for two single edges that run against each other the reversed pairing
  has the total corner distance 0, the straight pairing 4, and \<^verbatim>\<open>isTraversalMatching\<close> is
  true.
\<close>

theorem single_edge_never_swaps:
  "first_corner (scene (rule_on [Edge (0, 0) (2, 0)] [Edge (2, 0) (0, 0)]))
      (int1 (rule_on [Edge (0, 0) (2, 0)] [Edge (2, 0) (0, 0)])) = Inr (0, 0, 0) \<and>
   last_corner (scene (rule_on [Edge (0, 0) (2, 0)] [Edge (2, 0) (0, 0)]))
      (int1 (rule_on [Edge (0, 0) (2, 0)] [Edge (2, 0) (0, 0)])) = Inr (2, 0, 0) \<and>
   first_corner (scene (rule_on [Edge (0, 0) (2, 0)] [Edge (2, 0) (0, 0)]))
      (int2 (rule_on [Edge (0, 0) (2, 0)] [Edge (2, 0) (0, 0)])) = Inr (2, 0, 0) \<and>
   last_corner (scene (rule_on [Edge (0, 0) (2, 0)] [Edge (2, 0) (0, 0)]))
      (int2 (rule_on [Edge (0, 0) (2, 0)] [Edge (2, 0) (0, 0)])) = Inr (0, 0, 0) \<and>
   norm3 (vsub3 (2, 0, 0) (2, 0, 0)) + norm3 (vsub3 (0, 0, 0) (0, 0, 0))
     < norm3 (vsub3 (2, 0, 0) (0, 0, 0)) + norm3 (vsub3 (0, 0, 0) (2, 0, 0)) \<and>
   isTraversalMatching (rule_on [Edge (0, 0) (2, 0)] [Edge (2, 0) (0, 0)]) = Inr True"
  by (simp add: corners_rule_on norm3_x)
     (simp add: isTraversalMatching_def rule_on_def side_of_def Edge_def)

lemma sum_list_rev_if: "sum_list (if b then rev xs else xs) = sum_list (xs :: real list)"
  by (simp add: sum_list_rev)

text \<open>
  C2. When the total projected lengths of the two interfaces differ by more than the
  tolerance, \<^verbatim>\<open>match_edge_count\<close> raises the mismatch error and the two interfaces and all
  panels are as they were.
\<close>

theorem mismatch_raises_before_mutation:
  assumes "projecting_edges (int1 w) = Inr l1" and "projecting_edges (int2 w) = Inr l2"
    and "isTraversalMatching w = Inr m" and "tol < \<bar>sum_list l1 - sum_list l2\<bar>"
  shows "match_edge_count w tol = (w, Some ProjectedMismatch)"
  using assms by (simp add: match_edge_count_def Let_def close_enough_def sum_list_rev_if)

declare match_loop.simps [simp del]

lemma projecting_edges_nonempty:
  "i_edges itf \<noteq> [] \<Longrightarrow> projecting_edges itf =
     (let chord = vsub (endv (last (i_edges itf))) (start (hd (i_edges itf)))
      in if norm2 chord = 0 then Inl ZeroDivision
         else Inr (map (\<lambda>e. \<bar>dot2 (vsub (endv e) (start e)) chord\<bar> / norm2 chord) (i_edges itf)))"
  by (cases "i_edges itf") (simp_all add: projecting_edges_def)

lemma norm2_nonneg [simp]: "0 \<le> norm2 v"
  by (simp add: norm2_def)

lemma projecting_edges_length:
  "projecting_edges itf = Inr proj \<Longrightarrow> length proj = length (i_edges itf)"
  by (cases "i_edges itf") (auto simp: projecting_edges_def Let_def split: if_splits)

lemma projecting_edges_set_nonneg:
  "projecting_edges itf = Inr proj \<Longrightarrow> \<forall>x \<in> set proj. 0 \<le> x"
  by (cases "i_edges itf") (auto simp: projecting_edges_def Let_def split: if_splits)

lemma projecting_edges_nonneg:
  "projecting_edges itf = Inr proj \<Longrightarrow> i < length proj \<Longrightarrow> 0 \<le> proj ! i"
  using projecting_edges_set_nonneg nth_mem by blast

lemma substitute_Inr_iff: "(\<exists>ys. substitute xs old new = Inr ys) \<longleftrightarrow> old \<in> set xs"
  by (induction xs) (auto split: sum.splits)

lemma substitute_length:
  "substitute xs old new = Inr ys \<Longrightarrow> length ys + 1 = length xs + length new"
  by (induction xs arbitrary: ys) (auto split: sum.splits if_splits)

lemma substitute_sum:
  "substitute xs old new = Inr ys \<Longrightarrow>
     sum_list (map f ys) + f old = sum_list (map f xs) + sum_list (map (f \<circ> inherit_id old) new)"
  for f :: "vertex edge \<Rightarrow> real"
  by (induction xs arbitrary: ys) (auto split: sum.splits if_splits)

lemma substitute_set:
  "substitute xs old new = Inr ys \<Longrightarrow> set ys \<subseteq> set xs \<union> inherit_id old ` set new"
  by (induction xs arbitrary: ys) (auto split: sum.splits if_splits)

lemma edge_length_inherit [simp]: "edge_length (inherit_id old e) = edge_length e"
  by (simp add: edge_length_def inherit_id_def)

lemma from_fractions_two:
  assumes "from_fractions s e [f, 1 - f] = Inr subdiv"
  shows "subdiv = [Edge s (fst s + \<bar>f\<bar> * fst (vsub e s), snd s + \<bar>f\<bar> * snd (vsub e s)),
                   Edge (fst s + \<bar>f\<bar> * fst (vsub e s), snd s + \<bar>f\<bar> * snd (vsub e s)) e]"
    and "\<bar>\<bar>f\<bar> + \<bar>1 - f\<bar> - 1\<bar> \<le> 1 / 10000"
  using assms by (auto simp: from_fractions_def Let_def close_enough_def split: if_splits)

lemma match_step_cases [consumes 2, case_names skip advance split]:
  assumes step: "match_step tol to_add st = Inr st'"
    and inb: "in_id st < length (i_edges (st_inter st))"
  obtains
    (skip) "st_inter st' = st_inter st" "st_scene st' = st_scene st"
           "in_id st' = in_id st + 1" "add_id st' = add_id st + 1"
  | (advance) "st_inter st' = st_inter st" "st_scene st' = st_scene st"
           "in_id st' = in_id st + 1" "add_id st' = add_id st"
  | (split) frac subdiv p pedges iedges where
           "from_fractions (start (i_edges (st_inter st) ! in_id st))
              (endv (i_edges (st_inter st) ! in_id st)) [frac, 1 - frac] = Inr subdiv"
           "frac \<le> 1"
           "in_id st < length (i_panel (st_inter st))"
           "st_scene st (i_panel (st_inter st) ! in_id st) = Some p"
           "substitute (p_edges p) (i_edges (st_inter st) ! in_id st) subdiv = Inr pedges"
           "substitute (i_edges (st_inter st)) (i_edges (st_inter st) ! in_id st) subdiv = Inr iedges"
           "st_inter st' = \<lparr>i_edges = iedges,
               i_panel = list_insert (in_id st) (i_panel (st_inter st) ! in_id st) (i_panel (st_inter st))\<rparr>"
           "st_scene st' = (st_scene st)(i_panel (st_inter st) ! in_id st \<mapsto> p\<lparr>p_edges := pedges\<rparr>)"
           "in_id st' = in_id st + 1" "add_id st' = add_id st + 1"
proof -
  obtain proj where proj: "projecting_edges (st_inter st) = Inr proj"
    using step by (auto simp: match_step_def split: sum.splits)
  define next_init where "next_init = covered_init st + proj ! in_id st"
  define next_added where "next_added = covered_added st + to_add ! add_id st"
  have pos: "0 \<le> proj ! in_id st"
    using projecting_edges_nonneg [OF proj] projecting_edges_length [OF proj] inb by simp
  consider (a) "close_enough next_init next_added tol"
    | (b) "\<not> close_enough next_init next_added tol" "next_init < next_added"
    | (c) "\<not> close_enough next_init next_added tol" "\<not> next_init < next_added"
    by blast
  then show thesis
  proof cases
    case a
    with step proj show thesis
      by (intro skip) (auto simp: match_step_def Let_def next_init_def next_added_def)
  next
    case b
    with step proj show thesis
      by (intro advance) (auto simp: match_step_def Let_def next_init_def next_added_def)
  next
    case c
    define frac where "frac = (proj ! in_id st - (next_init - next_added)) / proj ! in_id st"
    have nz: "proj ! in_id st \<noteq> 0"
      using step proj c by (auto simp: match_step_def Let_def next_init_def next_added_def split: if_splits)
    then have "0 < proj ! in_id st" using pos by simp
    moreover have "proj ! in_id st - (next_init - next_added) \<le> proj ! in_id st"
      using c(2) by simp
    ultimately have f1: "frac \<le> 1"
      by (simp add: frac_def)
    from step proj c nz show thesis
      unfolding match_step_def
      by (simp add: Let_def next_init_def [symmetric] next_added_def [symmetric] frac_def [symmetric]
               split: sum.splits if_splits option.splits)
         (rule split [OF _ f1], auto)
  qed
qed

lemma projecting_horizontal:
  assumes "es \<noteq> []" and "\<forall>e \<in> set es. snd (start e) = 0 \<and> snd (endv e) = 0"
    and "fst (endv (last es)) \<noteq> fst (start (hd es))"
  shows "projecting_edges \<lparr>i_edges = es, i_panel = ps\<rparr> =
           Inr (map (\<lambda>e. \<bar>fst (endv e) - fst (start e)\<bar>) es)"
proof -
  define c where "c = fst (endv (last es)) - fst (start (hd es))"
  have c0: "c \<noteq> 0" using assms(3) by (simp add: c_def)
  have "snd (endv (last es)) = 0" "snd (start (hd es)) = 0"
    using assms(1,2) by simp_all
  then have chord: "vsub (endv (last es)) (start (hd es)) = (c, 0)"
    by (simp add: vsub_def c_def)
  have d: "dot2 (vsub (endv e) (start e)) (c, 0) = (fst (endv e) - fst (start e)) * c" for e :: "vertex edge"
    by (simp add: dot2_def vsub_def)
  have q: "\<bar>x * c\<bar> / \<bar>c\<bar> = \<bar>x\<bar>" for x
    using c0 by (simp add: abs_mult)
  have "\<bar>dot2 (vsub (endv e) (start e)) (c, 0)\<bar> / \<bar>c\<bar> = \<bar>fst (endv e) - fst (start e)\<bar>" for e :: "vertex edge"
    unfolding d q ..
  then show ?thesis
    using c0 assms(1) by (simp add: projecting_edges_nonempty chord norm2_horizontal')
qed

text \<open>C2 at a side of length 10 against a side of length 15, with the tolerance 0.1.\<close>

theorem mismatch_raises_before_mutation_witness:
  "match_edge_count (rule_on [Edge (0, 0) (10, 0)] [Edge (0, 0) (15, 0)]) (1 / 10) =
     (rule_on [Edge (0, 0) (10, 0)] [Edge (0, 0) (15, 0)], Some ProjectedMismatch)"
proof -
  let ?w = "rule_on [Edge (0, 0) (10, 0)] [Edge (0, 0) (15, 0)]"
  have p1: "projecting_edges (int1 ?w) = Inr [10]"
    by (simp add: rule_on_def side_of_def projecting_horizontal Edge_def)
  have p2: "projecting_edges (int2 ?w) = Inr [15]"
    by (simp add: rule_on_def side_of_def projecting_horizontal Edge_def)
  have m: "isTraversalMatching ?w = Inr True"
    by (simp add: isTraversalMatching_def rule_on_def side_of_def)
  show ?thesis
    by (rule mismatch_raises_before_mutation [OF p1 p2 m]) simp
qed

lemma from_fractions_two_lengths:
  assumes ff: "from_fractions s e [f, 1 - f] = Inr subdiv" and f1: "f \<le> 1"
  shows "sum_list (map edge_length subdiv) = norm2 (vsub e s)"
    and "length subdiv = 2" and "\<forall>x \<in> set subdiv. control_points x = []"
proof -
  note sd = from_fractions_two(1) [OF ff]
  have tolr: "\<bar>\<bar>f\<bar> + \<bar>1 - f\<bar> - 1\<bar> \<le> 1 / 10000"
    by (rule from_fractions_two(2) [OF ff])
  have af: "\<bar>f\<bar> \<le> 1"
    using f1 tolr by (cases "0 \<le> f") auto
  have l: "map edge_length subdiv =
             map (\<lambda>f. \<bar>f\<bar> * norm2 (vsub e s)) (butlast [f, 1 - f]) @
             [\<bar>1 - sum_list (map abs (butlast [f, 1 - f]))\<bar> * norm2 (vsub e s)]"
    by (rule from_fractions_lengths [OF ff])
  show "sum_list (map edge_length subdiv) = norm2 (vsub e s)"
    using af by (simp add: l algebra_simps)
  show "length subdiv = 2" by (simp add: sd)
  show "\<forall>x \<in> set subdiv. control_points x = []" by (simp add: sd Edge_def)
qed

lemma control_points_inherit [simp]: "control_points (inherit_id old e) = control_points e"
  by (simp add: inherit_id_def)

lemma step_preserves_chords:
  assumes step: "match_step tol to_add st = Inr st'"
    and inb: "in_id st < length (i_edges (st_inter st))"
  shows "sum_list (map edge_length (i_edges (st_inter st'))) =
           sum_list (map edge_length (i_edges (st_inter st))) \<and>
         set (i_edges (st_inter st')) \<subseteq> set (i_edges (st_inter st)) \<union> {e. control_points e = []}"
  using step inb
proof (cases rule: match_step_cases)
  case skip
  then show ?thesis by simp
next
  case advance
  then show ?thesis by simp
next
  case (split frac subdiv p pedges iedges)
  let ?base = "i_edges (st_inter st) ! in_id st"
  note fl = from_fractions_two_lengths [OF split(1,2)]
  have "sum_list (map edge_length iedges) + edge_length ?base =
        sum_list (map edge_length (i_edges (st_inter st))) + sum_list (map (edge_length \<circ> inherit_id ?base) subdiv)"
    by (rule substitute_sum [OF split(6)])
  moreover have "map (edge_length \<circ> inherit_id ?base) subdiv = map edge_length subdiv"
    by simp
  ultimately have s: "sum_list (map edge_length iedges) = sum_list (map edge_length (i_edges (st_inter st)))"
    using fl(1) by (simp add: edge_length_def)
  have "set iedges \<subseteq> set (i_edges (st_inter st)) \<union> inherit_id ?base ` set subdiv"
    by (rule substitute_set [OF split(6)])
  then have "set iedges \<subseteq> set (i_edges (st_inter st)) \<union> {e. control_points e = []}"
    using fl(3) by auto
  with s split(7) show ?thesis by simp
qed

lemma loop_preserves_chords:
  "match_loop tol to_add st = (st', r) \<Longrightarrow>
     sum_list (map edge_length (i_edges (st_inter st'))) =
       sum_list (map edge_length (i_edges (st_inter st))) \<and>
     set (i_edges (st_inter st')) \<subseteq> set (i_edges (st_inter st)) \<union> {e. control_points e = []}"
proof (induction tol to_add st rule: match_loop.induct)
  case (1 tol to_add st)
  show ?case
  proof (cases "in_id st < length (i_edges (st_inter st)) \<and> add_id st < length to_add")
    case False
    with "1.prems" show ?thesis
      by (simp add: match_loop.simps [of tol to_add st])
  next
    case True
    show ?thesis
    proof (cases "match_step tol to_add st")
      case (Inl err)
      with True "1.prems" show ?thesis
        by (simp add: match_loop.simps [of tol to_add st])
    next
      case (Inr st1)
      with True "1.prems" have run: "match_loop tol to_add st1 = (st', r)"
        by (simp add: match_loop.simps [of tol to_add st])
      have ih: "sum_list (map edge_length (i_edges (st_inter st'))) =
                  sum_list (map edge_length (i_edges (st_inter st1))) \<and>
                set (i_edges (st_inter st')) \<subseteq> set (i_edges (st_inter st1)) \<union> {e. control_points e = []}"
        by (rule "1.IH" [OF True Inr run])
      have st: "sum_list (map edge_length (i_edges (st_inter st1))) =
                  sum_list (map edge_length (i_edges (st_inter st))) \<and>
                set (i_edges (st_inter st1)) \<subseteq> set (i_edges (st_inter st)) \<union> {e. control_points e = []}"
        using step_preserves_chords [OF Inr] True by simp
      from ih st show ?thesis by auto
    qed
  qed
qed

lemma side_preserves_chords:
  assumes "match_side_count sc itf to_add tol = ((itf', sc'), r)"
  shows "sum_list (map edge_length (i_edges itf')) = sum_list (map edge_length (i_edges itf))"
    and "set (i_edges itf') \<subseteq> set (i_edges itf) \<union> {e. control_points e = []}"
proof -
  obtain st' r' where run: "match_loop tol to_add
      \<lparr>st_inter = itf, st_scene = sc, in_id = 0, add_id = 0, covered_init = 0, covered_added = 0\<rparr> = (st', r')"
    by (cases "match_loop tol to_add
      \<lparr>st_inter = itf, st_scene = sc, in_id = 0, add_id = 0, covered_init = 0, covered_added = 0\<rparr>") blast
  have "itf' = st_inter st'"
    using assms run by (auto simp: match_side_count_def split: option.splits)
  with loop_preserves_chords [OF run]
  show "sum_list (map edge_length (i_edges itf')) = sum_list (map edge_length (i_edges itf))"
    and "set (i_edges itf') \<subseteq> set (i_edges itf) \<union> {e. control_points e = []}"
    by simp_all
qed

lemmas run_simps = match_edge_count_def rule_on_def side_of_def projecting_horizontal Edge_def
  CurveEdge_def edge_with_id_def isTraversalMatching_def close_enough_def match_side_count_def
  match_loop.simps match_step_def Let_def from_fractions_def vsub_def two_panels_def flat_panel_def
  inherit_id_def edge_length_def norm2_horizontal' list_insert_def

lemma t_stitch_run:
  "case match_edge_count t_stitch (1 / 10) of (w', r) \<Rightarrow>
     r = None \<and>
     int1 w' = \<lparr>i_edges = [edge_with_id 3 (0, 0) (4, 0), edge_with_id 3 (4, 0) (10, 0)], i_panel = [0, 0]\<rparr> \<and>
     int2 w' = int2 t_stitch \<and>
     scene w' 0 = Some (flat_panel ''front'' [edge_with_id 3 (0, 0) (4, 0), edge_with_id 3 (4, 0) (10, 0)]) \<and>
     scene w' 1 = scene t_stitch 1"
  by (simp add: t_stitch_def run_simps)

lemma arch_stitch_run:
  "case match_edge_count arch_stitch (1 / 10) of (w', r) \<Rightarrow>
     r = None \<and>
     int1 w' = \<lparr>i_edges = [Edge (0, 0) (2, 0), Edge (2, 0) (6, 0)], i_panel = [0, 0]\<rparr> \<and>
     int2 w' = int2 arch_stitch"
  by (simp add: arch_stitch_def run_simps)

lemma match_edge_count_sides:
  assumes "match_edge_count w tol = (w', r)"
  shows "int1 w' = int1 w \<or> (\<exists>sc to_add sc' r'. match_side_count sc (int1 w) to_add tol = ((int1 w', sc'), r'))"
    and "int2 w' = int2 w \<or> (\<exists>sc to_add sc' r'. match_side_count sc (int2 w) to_add tol = ((int2 w', sc'), r'))"
  using assms unfolding match_edge_count_def Let_def
  by (auto split: sum.splits if_splits prod.splits option.splits)

lemma straight_lengths:
  "\<forall>e \<in> set es. control_points e = [] \<Longrightarrow> map (length_e n) es = map edge_length es"
  by (simp add: length_e_def)

lemma sqrt25: "sqrt 25 = 5"
  by (rule real_sqrt_unique) simp_all

lemma conserves_parts:
  assumes "match_edge_count w tol = (w', r)"
  shows "sum_list (map edge_length (i_edges (int1 w'))) = sum_list (map edge_length (i_edges (int1 w)))"
    and "sum_list (map edge_length (i_edges (int2 w'))) = sum_list (map edge_length (i_edges (int2 w)))"
    and "set (i_edges (int1 w')) \<subseteq> set (i_edges (int1 w)) \<union> {e. control_points e = []}"
    and "set (i_edges (int2 w')) \<subseteq> set (i_edges (int2 w)) \<union> {e. control_points e = []}"
    and "(\<forall>e \<in> set (i_edges (int1 w)). control_points e = []) \<longrightarrow>
           sum_list (map (length_e n) (i_edges (int1 w'))) = sum_list (map (length_e n) (i_edges (int1 w)))"
    and "(\<forall>e \<in> set (i_edges (int2 w)). control_points e = []) \<longrightarrow>
           sum_list (map (length_e n) (i_edges (int2 w'))) = sum_list (map (length_e n) (i_edges (int2 w)))"
proof -
  show c1: "sum_list (map edge_length (i_edges (int1 w'))) = sum_list (map edge_length (i_edges (int1 w)))"
    using match_edge_count_sides(1) [OF assms] side_preserves_chords(1) by fastforce
  show c2: "sum_list (map edge_length (i_edges (int2 w'))) = sum_list (map edge_length (i_edges (int2 w)))"
    using match_edge_count_sides(2) [OF assms] side_preserves_chords(1) by fastforce
  show s1: "set (i_edges (int1 w')) \<subseteq> set (i_edges (int1 w)) \<union> {e. control_points e = []}"
    using match_edge_count_sides(1) [OF assms] side_preserves_chords(2) by fastforce
  show s2: "set (i_edges (int2 w')) \<subseteq> set (i_edges (int2 w)) \<union> {e. control_points e = []}"
    using match_edge_count_sides(2) [OF assms] side_preserves_chords(2) by fastforce
  show "(\<forall>e \<in> set (i_edges (int1 w)). control_points e = []) \<longrightarrow>
           sum_list (map (length_e n) (i_edges (int1 w'))) = sum_list (map (length_e n) (i_edges (int1 w)))"
  proof
    assume st: "\<forall>e \<in> set (i_edges (int1 w)). control_points e = []"
    then have "\<forall>e \<in> set (i_edges (int1 w')). control_points e = []"
      using s1 by auto
    then show "sum_list (map (length_e n) (i_edges (int1 w'))) = sum_list (map (length_e n) (i_edges (int1 w)))"
      using st c1 by (simp add: straight_lengths)
  qed
  show "(\<forall>e \<in> set (i_edges (int2 w)). control_points e = []) \<longrightarrow>
           sum_list (map (length_e n) (i_edges (int2 w'))) = sum_list (map (length_e n) (i_edges (int2 w)))"
  proof
    assume st: "\<forall>e \<in> set (i_edges (int2 w)). control_points e = []"
    then have "\<forall>e \<in> set (i_edges (int2 w')). control_points e = []"
      using s2 by auto
    then show "sum_list (map (length_e n) (i_edges (int2 w'))) = sum_list (map (length_e n) (i_edges (int2 w)))"
      using st c2 by (simp add: straight_lengths)
  qed
qed

text \<open>
  C5 (amended). Whatever \<^verbatim>\<open>match_edge_count\<close> does to an interface, the chords of its
  edges keep their total length, and every edge that is new is straight. So an interface of
  straight edges has the same total edge length after the call as before, exactly, also
  when the call raises midway; a curved edge that is split is replaced by straight edges
  along its chord.
\<close>

theorem subdivision_conserves_straight_length:
  assumes "match_edge_count w tol = (w', r)"
  shows "sum_list (map edge_length (i_edges (int1 w'))) = sum_list (map edge_length (i_edges (int1 w))) \<and>
     sum_list (map edge_length (i_edges (int2 w'))) = sum_list (map edge_length (i_edges (int2 w))) \<and>
     set (i_edges (int1 w')) \<subseteq> set (i_edges (int1 w)) \<union> {e. control_points e = []} \<and>
     set (i_edges (int2 w')) \<subseteq> set (i_edges (int2 w)) \<union> {e. control_points e = []} \<and>
     ((\<forall>e \<in> set (i_edges (int1 w)). control_points e = []) \<longrightarrow>
        sum_list (map (length_e n) (i_edges (int1 w'))) = sum_list (map (length_e n) (i_edges (int1 w)))) \<and>
     ((\<forall>e \<in> set (i_edges (int2 w)). control_points e = []) \<longrightarrow>
        sum_list (map (length_e n) (i_edges (int2 w'))) = sum_list (map (length_e n) (i_edges (int2 w))))"
  using conserves_parts [OF assms] by (intro conjI)

text \<open>
  The amended C5 at the T-stitch: the side of length 10 is split in two and is still 10 long.
\<close>

theorem subdivision_conserves_straight_length_witness:
  "length (i_edges (int1 (fst (match_edge_count t_stitch (1 / 10))))) = 2 \<and>
   sum_list (map (length_e 2) (i_edges (int1 (fst (match_edge_count t_stitch (1 / 10)))))) = 10 \<and>
   sum_list (map (length_e 2) (i_edges (int1 t_stitch))) = 10"
proof -
  have run: "match_edge_count t_stitch (1 / 10) =
               (fst (match_edge_count t_stitch (1 / 10)), snd (match_edge_count t_stitch (1 / 10)))"
    by simp
  have st: "\<forall>e \<in> set (i_edges (int1 t_stitch)). control_points e = []"
    by (simp add: t_stitch_def rule_on_def side_of_def edge_with_id_def Edge_def)
  have before: "sum_list (map (length_e 2) (i_edges (int1 t_stitch))) = 10"
    by (simp add: t_stitch_def rule_on_def side_of_def edge_with_id_def Edge_def length_e_def
          edge_length_def vsub_def norm2_horizontal')
  have two: "length (i_edges (int1 (fst (match_edge_count t_stitch (1 / 10))))) = 2"
    using t_stitch_run by (simp add: case_prod_beta)
  show ?thesis
    using subdivision_conserves_straight_length [OF run, of 2] st before two by simp
qed

text \<open>
  C5 as stated fails: the arched edge, 10 long along the polyline through its middle, is
  replaced by the two straight edges of the lengths 2 and 4.
\<close>

theorem curved_edge_length_not_conserved:
  "sum_list (map (length_e 2) (i_edges (int1 arch_stitch))) = 10 \<and>
   snd (match_edge_count arch_stitch (1 / 10)) = None \<and>
   length (i_edges (int1 (fst (match_edge_count arch_stitch (1 / 10))))) = 2 \<and>
   sum_list (map (length_e 2) (i_edges (int1 (fst (match_edge_count arch_stitch (1 / 10)))))) = 6"
proof -
  have p0: "curve_point (CurveEdge (0, 0) (6, 0) [(1 / 2, 4 / 3)]) 0 = (0, 0)"
    and p1: "curve_point (CurveEdge (0, 0) (6, 0) [(1 / 2, 4 / 3)]) (1 / 2) = (3, 4)"
    and p2: "curve_point (CurveEdge (0, 0) (6, 0) [(1 / 2, 4 / 3)]) 1 = (6, 0)"
    by (simp_all add: curve_point_def CurveEdge_def control_to_abs_def Let_def vsub_def vadd_def
          vscale_def numeral_2_eq_2)
  have u: "[0 ..< 2] = [0, 1]"
    by (simp add: upt_rec)
  have n34: "norm2 (3, 4) = 5" "norm2 (3, - 4) = 5"
    using sqrt25 by (simp_all add: norm2_def)
  have before: "sum_list (map (length_e 2) (i_edges (int1 arch_stitch))) = 10"
    unfolding arch_stitch_def rule_on_def side_of_def
    by (simp add: length_e_def sampled_length_def u p0 p1 p2 vsub_def n34)
       (simp add: CurveEdge_def)
  have after: "snd (match_edge_count arch_stitch (1 / 10)) = None \<and>
      length (i_edges (int1 (fst (match_edge_count arch_stitch (1 / 10))))) = 2 \<and>
      sum_list (map (length_e 2) (i_edges (int1 (fst (match_edge_count arch_stitch (1 / 10)))))) = 6"
    using arch_stitch_run
    by (simp add: case_prod_beta length_e_def Edge_def edge_length_def vsub_def norm2_horizontal')
  show ?thesis using before after by simp
qed

lemma step_counts:
  assumes step: "match_step tol to_add st = Inr st'"
    and inb: "in_id st < length (i_edges (st_inter st))"
  shows "in_id st' = in_id st + 1 \<and> add_id st' \<le> add_id st + 1 \<and>
     (\<forall>pid. boundary_size (st_scene st pid) \<le> boundary_size (st_scene st' pid)) \<and>
     ((st_inter st' = st_inter st \<and> st_scene st' = st_scene st) \<or>
      (length (i_edges (st_inter st')) = length (i_edges (st_inter st)) + 1 \<and>
       (\<exists>pid. boundary_size (st_scene st pid) < boundary_size (st_scene st' pid))))"
  using step inb
proof (cases rule: match_step_cases)
  case skip
  then show ?thesis by simp
next
  case advance
  then show ?thesis by simp
next
  case (split frac subdiv p pedges iedges)
  let ?pid = "i_panel (st_inter st) ! in_id st"
  have two: "length subdiv = 2"
    by (rule from_fractions_two_lengths(2) [OF split(1,2)])
  have li: "length iedges = length (i_edges (st_inter st)) + 1"
    using substitute_length [OF split(6)] two by simp
  have lp: "length pedges = length (p_edges p) + 1"
    using substitute_length [OF split(5)] two by simp
  have grow: "boundary_size (st_scene st ?pid) < boundary_size (st_scene st' ?pid)"
    using split(4,8) lp by (simp add: boundary_size_def)
  have mono: "boundary_size (st_scene st pid) \<le> boundary_size (st_scene st' pid)" for pid
    using split(4,8) lp by (cases "pid = ?pid") (simp_all add: boundary_size_def)
  show ?thesis
    using split(7,9,10) li grow mono by auto
qed

lemma loop_counts:
  "match_loop tol to_add st = (st', r) \<Longrightarrow> in_id st \<le> length (i_edges (st_inter st)) \<Longrightarrow>
     length (i_edges (st_inter st)) \<le> length (i_edges (st_inter st')) \<and>
     (\<forall>pid. boundary_size (st_scene st pid) \<le> boundary_size (st_scene st' pid)) \<and>
     (length (i_edges (st_inter st')) = length (i_edges (st_inter st)) \<longrightarrow>
        st_inter st' = st_inter st \<and> st_scene st' = st_scene st \<and>
        add_id st' + in_id st \<le> in_id st' + add_id st \<and>
        in_id st' \<le> length (i_edges (st_inter st'))) \<and>
     (length (i_edges (st_inter st)) < length (i_edges (st_inter st')) \<longrightarrow>
        (\<exists>pid. boundary_size (st_scene st pid) < boundary_size (st_scene st' pid)))"
proof (induction tol to_add st rule: match_loop.induct)
  case (1 tol to_add st)
  show ?case
  proof (cases "in_id st < length (i_edges (st_inter st)) \<and> add_id st < length to_add")
    case False
    with "1.prems" show ?thesis
      by (simp add: match_loop.simps [of tol to_add st])
  next
    case True
    show ?thesis
    proof (cases "match_step tol to_add st")
      case (Inl err)
      with True "1.prems" show ?thesis
        by (simp add: match_loop.simps [of tol to_add st])
    next
      case (Inr st1)
      with True "1.prems" have run: "match_loop tol to_add st1 = (st', r)"
        by (simp add: match_loop.simps [of tol to_add st])
      have sc: "in_id st1 = in_id st + 1 \<and> add_id st1 \<le> add_id st + 1 \<and>
         (\<forall>pid. boundary_size (st_scene st pid) \<le> boundary_size (st_scene st1 pid)) \<and>
         ((st_inter st1 = st_inter st \<and> st_scene st1 = st_scene st) \<or>
          (length (i_edges (st_inter st1)) = length (i_edges (st_inter st)) + 1 \<and>
           (\<exists>pid. boundary_size (st_scene st pid) < boundary_size (st_scene st1 pid))))"
        using step_counts [OF Inr] True by simp
      then have inb1: "in_id st1 \<le> length (i_edges (st_inter st1))"
        using True by auto
      note ih = "1.IH" [OF True Inr run inb1]
      have mono: "\<forall>pid. boundary_size (st_scene st pid) \<le> boundary_size (st_scene st' pid)"
        using sc ih by (meson order_trans)
      from sc show ?thesis
      proof (elim conjE disjE)
        assume same: "st_inter st1 = st_inter st" "st_scene st1 = st_scene st"
          and "in_id st1 = in_id st + 1" "add_id st1 \<le> add_id st + 1"
        with ih show ?thesis by auto
      next
        assume grow: "length (i_edges (st_inter st1)) = length (i_edges (st_inter st)) + 1"
          and ex: "\<exists>pid. boundary_size (st_scene st pid) < boundary_size (st_scene st1 pid)"
        have lt: "length (i_edges (st_inter st)) < length (i_edges (st_inter st'))"
          using grow ih by simp
        from ex obtain pid where "boundary_size (st_scene st pid) < boundary_size (st_scene st1 pid)"
          by blast
        moreover have "boundary_size (st_scene st1 pid) \<le> boundary_size (st_scene st' pid)"
          using ih by blast
        ultimately have "\<exists>pid. boundary_size (st_scene st pid) < boundary_size (st_scene st' pid)"
          by (meson less_le_trans)
        with lt mono show ?thesis by simp
      qed
    qed
  qed
qed

lemma side_counts:
  assumes "match_side_count sc itf to_add tol = ((itf', sc'), r)"
  shows "length (i_edges itf) \<le> length (i_edges itf')"
    and "\<forall>pid. boundary_size (sc pid) \<le> boundary_size (sc' pid)"
    and "length (i_edges itf') = length (i_edges itf) \<Longrightarrow> itf' = itf \<and> sc' = sc"
    and "length (i_edges itf') = length (i_edges itf) \<Longrightarrow> r = None \<Longrightarrow> length to_add \<le> length (i_edges itf)"
    and "length (i_edges itf) < length (i_edges itf') \<Longrightarrow> \<exists>pid. boundary_size (sc pid) < boundary_size (sc' pid)"
proof -
  let ?st0 = "\<lparr>st_inter = itf, st_scene = sc, in_id = 0, add_id = 0, covered_init = 0, covered_added = 0\<rparr>"
  obtain st' r' where run: "match_loop tol to_add ?st0 = (st', r')"
    by (cases "match_loop tol to_add ?st0") blast
  have res: "itf' = st_inter st'" "sc' = st_scene st'"
    using assms run by (auto simp: match_side_count_def split: option.splits)
  have fin: "r = None \<Longrightarrow> add_id st' = length to_add"
    using assms run by (auto simp: match_side_count_def split: option.splits if_splits)
  note lc = loop_counts [OF run, simplified]
  show "length (i_edges itf) \<le> length (i_edges itf')"
    using lc res by simp
  show "\<forall>pid. boundary_size (sc pid) \<le> boundary_size (sc' pid)"
    using lc res by simp
  show "length (i_edges itf') = length (i_edges itf) \<Longrightarrow> itf' = itf \<and> sc' = sc"
    using lc res by simp
  show "length (i_edges itf') = length (i_edges itf) \<Longrightarrow> r = None \<Longrightarrow> length to_add \<le> length (i_edges itf)"
    using lc res fin by simp
  show "length (i_edges itf) < length (i_edges itf') \<Longrightarrow> \<exists>pid. boundary_size (sc pid) < boundary_size (sc' pid)"
    using lc res by simp
qed

lemma match_edge_count_success:
  assumes "match_edge_count w tol = (w', None)"
  obtains l1 l2 m I1 sc1 I2 sc2 where
    "projecting_edges (int1 w) = Inr l1" "projecting_edges (int2 w) = Inr l2"
    "isTraversalMatching w = Inr m"
    "close_enough (sum_list l1) (sum_list l2) tol"
    "match_side_count (scene w) (int1 w) (if \<not> m then rev l2 else l2) tol = ((I1, sc1), None)"
    "match_side_count sc1 (int2 w) (if \<not> m then rev l1 else l1) tol = ((I2, sc2), None)"
    "w' = w\<lparr>int1 := I1, int2 := I2, scene := sc2\<rparr>"
  using assms unfolding match_edge_count_def Let_def
  by (auto simp: sum_list_rev split: sum.splits if_splits prod.splits option.splits)

lemma matching_subdivides:
  assumes run: "match_edge_count w tol = (w', None)"
    and ne: "length (i_edges (int1 w)) \<noteq> length (i_edges (int2 w))"
  shows "length (i_edges (int1 w)) \<le> length (i_edges (int1 w')) \<and>
         length (i_edges (int2 w)) \<le> length (i_edges (int2 w')) \<and>
         (length (i_edges (int1 w)) < length (i_edges (int1 w')) \<or>
          length (i_edges (int2 w)) < length (i_edges (int2 w'))) \<and>
         (\<exists>pid. boundary_size (scene w pid) < boundary_size (scene w' pid))"
proof -
  from run obtain l1 l2 m I1 sc1 I2 sc2 where
    p1: "projecting_edges (int1 w) = Inr l1" and p2: "projecting_edges (int2 w) = Inr l2"
    and s1: "match_side_count (scene w) (int1 w) (if \<not> m then rev l2 else l2) tol = ((I1, sc1), None)"
    and s2: "match_side_count sc1 (int2 w) (if \<not> m then rev l1 else l1) tol = ((I2, sc2), None)"
    and w': "w' = w\<lparr>int1 := I1, int2 := I2, scene := sc2\<rparr>"
    by (rule match_edge_count_success)
  have n1: "length l1 = length (i_edges (int1 w))" and n2: "length l2 = length (i_edges (int2 w))"
    using projecting_edges_length p1 p2 by simp_all
  note c1 = side_counts [OF s1]
  note c2 = side_counts [OF s2]
  have le1: "length (i_edges (int1 w)) \<le> length (i_edges I1)" by (rule c1(1))
  have le2: "length (i_edges (int2 w)) \<le> length (i_edges I2)" by (rule c2(1))
  have some: "length (i_edges (int1 w)) < length (i_edges I1) \<or> length (i_edges (int2 w)) < length (i_edges I2)"
  proof (rule ccontr)
    assume "\<not> ?thesis"
    then have e1: "length (i_edges I1) = length (i_edges (int1 w))"
      and e2: "length (i_edges I2) = length (i_edges (int2 w))"
      using le1 le2 by simp_all
    have "length (i_edges (int2 w)) \<le> length (i_edges (int1 w))"
      using c1(4) [OF e1] n2 by (cases m) simp_all
    moreover have "length (i_edges (int1 w)) \<le> length (i_edges (int2 w))"
      using c2(4) [OF e2] n1 by (cases m) simp_all
    ultimately show False using ne by simp
  qed
  have grow: "\<exists>pid. boundary_size (scene w pid) < boundary_size (sc2 pid)"
  proof (cases "length (i_edges (int1 w)) < length (i_edges I1)")
    case True
    then obtain pid where "boundary_size (scene w pid) < boundary_size (sc1 pid)"
      using c1(5) by blast
    moreover have "boundary_size (sc1 pid) \<le> boundary_size (sc2 pid)"
      using c2(2) by blast
    ultimately show ?thesis by (meson less_le_trans)
  next
    case False
    then have "length (i_edges (int2 w)) < length (i_edges I2)"
      using some by blast
    then obtain pid where "boundary_size (sc1 pid) < boundary_size (sc2 pid)"
      using c2(5) by blast
    moreover have "boundary_size (scene w pid) \<le> boundary_size (sc1 pid)"
      using c1(2) by blast
    ultimately show ?thesis by (meson le_less_trans)
  qed
  show ?thesis
    using le1 le2 some grow by (simp add: w')
qed

text \<open>
  C10 (amended). With equal edge counts the constructor of a stitching rule changes
  nothing. With unequal edge counts it is \<^verbatim>\<open>match_edge_count\<close> with the tolerance 0.1; when
  that returns, no interface has lost an edge, at least one of the two has been subdivided,
  not necessarily both, and the boundary of a panel has grown with it. The constructor of
  \<^verbatim>\<open>Stitches\<close> and \<^verbatim>\<open>Stitches.append\<close> construct the rule in the same way.
\<close>

theorem constructor_runs_matching:
  "(length (i_edges i1) = length (i_edges i2) \<longrightarrow>
      StitchingRule i1 i2 sc = (\<lparr>int1 = i1, int2 = i2, scene = sc\<rparr>, None)) \<and>
   (length (i_edges i1) \<noteq> length (i_edges i2) \<longrightarrow>
      StitchingRule i1 i2 sc = match_edge_count \<lparr>int1 = i1, int2 = i2, scene = sc\<rparr> (1 / 10)) \<and>
   (length (i_edges i1) \<noteq> length (i_edges i2) \<and> StitchingRule i1 i2 sc = (w', None) \<longrightarrow>
      length (i_edges i1) \<le> length (i_edges (int1 w')) \<and>
      length (i_edges i2) \<le> length (i_edges (int2 w')) \<and>
      (length (i_edges i1) < length (i_edges (int1 w')) \<or>
       length (i_edges i2) < length (i_edges (int2 w'))) \<and>
      (\<exists>pid. boundary_size (sc pid) < boundary_size (scene w' pid))) \<and>
   Stitches [(i1, i2)] sc =
     (case StitchingRule i1 i2 sc of
        (w, Some err) \<Rightarrow> (([], scene w), Some err)
      | (w, None) \<Rightarrow> (([(int1 w, int2 w)], scene w), None)) \<and>
   Stitches_append rules (i1, i2) sc =
     (case StitchingRule i1 i2 sc of
        (w, Some err) \<Rightarrow> ((rules, scene w), Some err)
      | (w, None) \<Rightarrow> ((rules @ [(int1 w, int2 w)], scene w), None))"
proof (intro conjI impI)
  show "length (i_edges i1) = length (i_edges i2) \<Longrightarrow>
      StitchingRule i1 i2 sc = (\<lparr>int1 = i1, int2 = i2, scene = sc\<rparr>, None)"
    by (simp add: StitchingRule_def isMatching_def)
  show "length (i_edges i1) \<noteq> length (i_edges i2) \<Longrightarrow>
      StitchingRule i1 i2 sc = match_edge_count \<lparr>int1 = i1, int2 = i2, scene = sc\<rparr> (1 / 10)"
    by (simp add: StitchingRule_def isMatching_def)
  show "Stitches [(i1, i2)] sc =
     (case StitchingRule i1 i2 sc of
        (w, Some err) \<Rightarrow> (([], scene w), Some err)
      | (w, None) \<Rightarrow> (([(int1 w, int2 w)], scene w), None))"
    by (simp split: prod.splits option.splits)
  show "Stitches_append rules (i1, i2) sc =
     (case StitchingRule i1 i2 sc of
        (w, Some err) \<Rightarrow> ((rules, scene w), Some err)
      | (w, None) \<Rightarrow> ((rules @ [(int1 w, int2 w)], scene w), None))"
    by (simp add: Stitches_append_def)
next
  assume a: "length (i_edges i1) \<noteq> length (i_edges i2) \<and> StitchingRule i1 i2 sc = (w', None)"
  then have run: "match_edge_count \<lparr>int1 = i1, int2 = i2, scene = sc\<rparr> (1 / 10) = (w', None)"
    by (auto simp: StitchingRule_def isMatching_def Let_def)
  have ms: "length (i_edges i1) \<le> length (i_edges (int1 w')) \<and>
      length (i_edges i2) \<le> length (i_edges (int2 w')) \<and>
      (length (i_edges i1) < length (i_edges (int1 w')) \<or>
       length (i_edges i2) < length (i_edges (int2 w'))) \<and>
      (\<exists>pid. boundary_size (sc pid) < boundary_size (scene w' pid))"
    using matching_subdivides [OF run] a by simp
  from ms show "length (i_edges i1) \<le> length (i_edges (int1 w'))" by blast
  from ms show "length (i_edges i2) \<le> length (i_edges (int2 w'))" by blast
  from ms show "length (i_edges i1) < length (i_edges (int1 w')) \<or>
       length (i_edges i2) < length (i_edges (int2 w'))" by blast
  from ms show "\<exists>pid. boundary_size (sc pid) < boundary_size (scene w' pid)" by blast
qed

lemma t_stitch_rule:
  "StitchingRule (int1 t_stitch) (int2 t_stitch) (scene t_stitch) = match_edge_count t_stitch (1 / 10)"
  by (simp add: StitchingRule_def isMatching_def) (simp add: t_stitch_def rule_on_def side_of_def)

text \<open>
  C10 as stated fails: in the T-stitch the edge counts differ, the constructor returns, and
  the second interface and its panel are as they were.
\<close>

theorem t_stitch_leaves_second_side:
  "length (i_edges (int1 t_stitch)) \<noteq> length (i_edges (int2 t_stitch)) \<and>
   snd (StitchingRule (int1 t_stitch) (int2 t_stitch) (scene t_stitch)) = None \<and>
   int2 (fst (StitchingRule (int1 t_stitch) (int2 t_stitch) (scene t_stitch))) = int2 t_stitch \<and>
   scene (fst (StitchingRule (int1 t_stitch) (int2 t_stitch) (scene t_stitch))) 1 = scene t_stitch 1"
  using t_stitch_run unfolding t_stitch_rule
  by (simp add: case_prod_beta) (simp add: t_stitch_def rule_on_def side_of_def)

text \<open>
  The amended C10 at the T-stitch, and at two single edges of equal length.
\<close>

theorem constructor_runs_matching_witness:
  "length (i_edges (int1 t_stitch)) < length (i_edges (int1 (fst (match_edge_count t_stitch (1 / 10))))) \<and>
   (\<exists>pid. boundary_size (scene t_stitch pid)
            < boundary_size (scene (fst (match_edge_count t_stitch (1 / 10))) pid)) \<and>
   StitchingRule (side_of 0 [Edge (0, 0) (10, 0)]) (side_of 1 [Edge (0, 0) (10, 0)])
       (two_panels [Edge (0, 0) (10, 0)] [Edge (0, 0) (10, 0)]) =
     (rule_on [Edge (0, 0) (10, 0)] [Edge (0, 0) (10, 0)], None)"
proof -
  let ?r = "StitchingRule (int1 t_stitch) (int2 t_stitch) (scene t_stitch)"
  have ne: "length (i_edges (int1 t_stitch)) \<noteq> length (i_edges (int2 t_stitch))"
    by (simp add: t_stitch_def rule_on_def side_of_def)
  have ok: "?r = (fst (match_edge_count t_stitch (1 / 10)), None)"
    using t_stitch_run unfolding t_stitch_rule by (simp add: case_prod_beta prod_eq_iff)
  have second: "length (i_edges (int2 (fst (match_edge_count t_stitch (1 / 10))))) =
                length (i_edges (int2 t_stitch))"
    using t_stitch_run by (simp add: case_prod_beta)
  note inst = constructor_runs_matching [of "int1 t_stitch" "int2 t_stitch" "scene t_stitch"
      "fst (match_edge_count t_stitch (1 / 10))"]
  have a: "length (i_edges (int1 t_stitch)) < length (i_edges (int1 (fst (match_edge_count t_stitch (1 / 10)))))"
    using inst ne ok second by simp
  have b: "\<exists>pid. boundary_size (scene t_stitch pid)
            < boundary_size (scene (fst (match_edge_count t_stitch (1 / 10))) pid)"
    using inst ne ok by blast
  have c: "StitchingRule (side_of 0 [Edge (0, 0) (10, 0)]) (side_of 1 [Edge (0, 0) (10, 0)])
       (two_panels [Edge (0, 0) (10, 0)] [Edge (0, 0) (10, 0)]) =
     (rule_on [Edge (0, 0) (10, 0)] [Edge (0, 0) (10, 0)], None)"
    using constructor_runs_matching [of "side_of 0 [Edge (0, 0) (10, 0)]" "side_of 1 [Edge (0, 0) (10, 0)]"
        "two_panels [Edge (0, 0) (10, 0)] [Edge (0, 0) (10, 0)]"]
    by (simp add: side_of_def rule_on_def)
  show ?thesis using a b c by blast
qed

lemma dot2_self: "dot2 v v = (norm2 v)\<^sup>2"
  by (simp add: dot2_def norm2_def power2_eq_square)

lemma single_edge_projection:
  assumes "projecting_edges \<lparr>i_edges = [a], i_panel = ps\<rparr> = Inr [l]"
  shows "norm2 (vsub (endv a) (start a)) = l" and "l \<noteq> 0"
proof -
  let ?n = "norm2 (vsub (endv a) (start a))"
  have nz: "?n \<noteq> 0" and l: "l = \<bar>(?n)\<^sup>2\<bar> / ?n"
    using assms by (auto simp: projecting_edges_def Let_def dot2_self split: if_splits)
  have "\<bar>(?n)\<^sup>2\<bar> / ?n = ?n"
    using nz by (simp add: power2_eq_square)
  with l nz show "?n = l" and "l \<noteq> 0" by simp_all
qed

lemma split_projection:
  assumes L: "norm2 (vsub e s) = L" and nz: "L \<noteq> 0" and f: "0 \<le> f" "f \<le> 1"
    and m: "m = (fst s + f * fst (vsub e s), snd s + f * snd (vsub e s))"
  shows "projecting_edges \<lparr>i_edges = [inherit_id a (Edge s m), inherit_id a (Edge m e)], i_panel = ps\<rparr> =
           Inr [f * L, (1 - f) * L]"
proof -
  let ?v = "vsub e s"
  have d1: "dot2 (vsub m s) ?v = f * L\<^sup>2"
    unfolding L [symmetric] dot2_self [symmetric]
    by (simp add: m dot2_def vsub_def algebra_simps)
  have d2: "dot2 (vsub e m) ?v = (1 - f) * L\<^sup>2"
    unfolding L [symmetric] dot2_self [symmetric]
    by (simp add: m dot2_def vsub_def algebra_simps)
  have Lpos: "0 < L"
    using L nz norm2_nonneg [of ?v] by simp
  have q1: "\<bar>f * L\<^sup>2\<bar> / L = f * L"
    using f Lpos by (simp add: power2_eq_square abs_mult)
  have q2: "\<bar>(1 - f) * L\<^sup>2\<bar> / L = (1 - f) * L"
    using f Lpos by (simp add: power2_eq_square abs_mult)
  show ?thesis
    using nz by (simp add: projecting_edges_def Let_def inherit_id_def Edge_def L d1 d2 q1 q2)
qed

lemma substitute_single: "substitute [a] a new = Inr (map (inherit_id a) new)"
  by simp

lemma first_side_run:
  assumes proj: "projecting_edges \<lparr>i_edges = [a], i_panel = [pa]\<rparr> = Inr [10]"
    and pa: "sc pa = Some PA" and sub: "substitute (p_edges PA) a [Edge (start a) m, Edge m (endv a)] = Inr pe"
    and m: "m = (fst (start a) + 2 / 5 * fst (vsub (endv a) (start a)),
                 snd (start a) + 2 / 5 * snd (vsub (endv a) (start a)))"
  shows "match_side_count sc \<lparr>i_edges = [a], i_panel = [pa]\<rparr> [4, 6] (1 / 10) =
     ((\<lparr>i_edges = [inherit_id a (Edge (start a) m), inherit_id a (Edge m (endv a))], i_panel = [pa, pa]\<rparr>,
       sc(pa \<mapsto> PA\<lparr>p_edges := pe\<rparr>)), None)"
proof -
  let ?s = "start a" and ?e = "endv a"
  note L = single_edge_projection [OF proj]
  have ff: "from_fractions ?s ?e [2 / 5, 3 / 5] = Inr [Edge ?s m, Edge m ?e]"
    by (simp add: from_fractions_def close_enough_def Let_def m)
  have len1: "edge_length (Edge ?s m) = 4"
  proof -
    have "vsub m ?s = (2 / 5 * fst (vsub ?e ?s), 2 / 5 * snd (vsub ?e ?s))"
      by (simp add: m vsub_def)
    then show ?thesis
      using norm2_scale [of "2 / 5" "vsub ?e ?s"] L(1) by (simp add: edge_length_Edge)
  qed
  have proj2: "projecting_edges \<lparr>i_edges = [inherit_id a (Edge ?s m), inherit_id a (Edge m ?e)], i_panel = [pa, pa]\<rparr> =
                 Inr [4, 6]"
    using split_projection [OF L(1) _ _ _ m, of a "[pa, pa]"] by simp
  let ?st0 = "\<lparr>st_inter = \<lparr>i_edges = [a], i_panel = [pa]\<rparr>, st_scene = sc, in_id = 0, add_id = 0,
                covered_init = 0, covered_added = 0\<rparr>"
  let ?st1 = "\<lparr>st_inter = \<lparr>i_edges = [inherit_id a (Edge ?s m), inherit_id a (Edge m ?e)], i_panel = [pa, pa]\<rparr>,
                st_scene = sc(pa \<mapsto> PA\<lparr>p_edges := pe\<rparr>), in_id = Suc 0, add_id = Suc 0,
                covered_init = 4, covered_added = 4\<rparr>"
  let ?st2 = "\<lparr>st_inter = \<lparr>i_edges = [inherit_id a (Edge ?s m), inherit_id a (Edge m ?e)], i_panel = [pa, pa]\<rparr>,
                st_scene = sc(pa \<mapsto> PA\<lparr>p_edges := pe\<rparr>), in_id = 2, add_id = 2,
                covered_init = 10, covered_added = 10\<rparr>"
  have step1: "match_step (1 / 10) [4, 6] ?st0 = Inr ?st1"
    by (simp add: match_step_def proj close_enough_def Let_def ff pa sub list_insert_def len1)
  have step2: "match_step (1 / 10) [4, 6] ?st1 = Inr ?st2"
    by (simp add: match_step_def proj2 close_enough_def Let_def)
  have "match_loop (1 / 10) [4, 6] ?st0 = match_loop (1 / 10) [4, 6] ?st1"
    by (subst match_loop.simps) (simp add: step1)
  also have "\<dots> = match_loop (1 / 10) [4, 6] ?st2"
    by (subst match_loop.simps) (simp add: step2)
  also have "\<dots> = (?st2, None)"
    by (subst match_loop.simps) simp
  finally show ?thesis
    by (simp add: match_side_count_def)
qed

lemma second_side_run:
  assumes proj: "projecting_edges \<lparr>i_edges = [b1, b2], i_panel = ps\<rparr> = Inr [4, 6]"
  shows "match_side_count sc \<lparr>i_edges = [b1, b2], i_panel = ps\<rparr> [10] (1 / 10) =
           ((\<lparr>i_edges = [b1, b2], i_panel = ps\<rparr>, sc), None)"
proof -
  let ?B = "\<lparr>i_edges = [b1, b2], i_panel = ps\<rparr>"
  let ?st0 = "\<lparr>st_inter = ?B, st_scene = sc, in_id = 0, add_id = 0, covered_init = 0, covered_added = 0\<rparr>"
  let ?st1 = "\<lparr>st_inter = ?B, st_scene = sc, in_id = Suc 0, add_id = 0, covered_init = 4, covered_added = 0\<rparr>"
  let ?st2 = "\<lparr>st_inter = ?B, st_scene = sc, in_id = 2, add_id = Suc 0, covered_init = 10, covered_added = 10\<rparr>"
  have step1: "match_step (1 / 10) [10] ?st0 = Inr ?st1"
    by (simp add: match_step_def proj close_enough_def Let_def)
  have step2: "match_step (1 / 10) [10] ?st1 = Inr ?st2"
    by (simp add: match_step_def proj close_enough_def Let_def)
  have "match_loop (1 / 10) [10] ?st0 = match_loop (1 / 10) [10] ?st1"
    by (subst match_loop.simps) (simp add: step1)
  also have "\<dots> = match_loop (1 / 10) [10] ?st2"
    by (subst match_loop.simps) (simp add: step2)
  also have "\<dots> = (?st2, None)"
    by (subst match_loop.simps) simp
  finally show ?thesis
    by (simp add: match_side_count_def)
qed

lemma point_to_3D_boundary [simp]: "point_to_3D (p\<lparr>p_edges := pe\<rparr>) v = point_to_3D p v"
  by (simp add: point_to_3D_def)

lemma stitch_side_update:
  "sc pa = Some PA \<Longrightarrow> stitch_side (sc(pa \<mapsto> PA\<lparr>p_edges := pe\<rparr>)) itf i = stitch_side sc itf i"
  by (simp add: stitch_side_def)

lemma first_corner_update:
  "sc pa = Some PA \<Longrightarrow> first_corner (sc(pa \<mapsto> PA\<lparr>p_edges := pe\<rparr>)) itf = first_corner sc itf"
  by (auto simp: first_corner_def split: list.splits option.splits)

lemma last_corner_update:
  "sc pa = Some PA \<Longrightarrow> last_corner (sc(pa \<mapsto> PA\<lparr>p_edges := pe\<rparr>)) itf = last_corner sc itf"
  by (auto simp: last_corner_def split: option.splits)

text \<open>
  C1. Interface 1 is a single edge \<open>a\<close> of projected length 10 on the panel \<open>PA\<close>, interface 2
  has the two edges \<open>b1\<close>, \<open>b2\<close> of the projected lengths 4 and 6, and the traversal matches.
  Then \<^verbatim>\<open>match_edge_count\<close> with the tolerance 0.1 returns; it has split \<open>a\<close> at the
  fraction 0.4 of its chord, in the interface and in the boundary of \<open>PA\<close>, into two edges
  of the lengths 4 and 6 that carry the \<open>geometric_id\<close> of \<open>a\<close>; interface 2 is as it was;
  and \<^verbatim>\<open>assembly\<close> returns exactly two stitches, which pair the first new edge with \<open>b1\<close>
  and the second new edge with \<open>b2\<close>.
\<close>

theorem t_stitch_assembly:
  assumes A: "int1 w = \<lparr>i_edges = [a], i_panel = [pa]\<rparr>"
    and B: "int2 w = \<lparr>i_edges = [b1, b2], i_panel = [pb1, pb2]\<rparr>"
    and panels: "scene w pa = Some PA" "scene w pb1 = Some PB1" "scene w pb2 = Some PB2"
    and owned: "a \<in> set (p_edges PA)"
    and projA: "projecting_edges (int1 w) = Inr [10]"
    and projB: "projecting_edges (int2 w) = Inr [4, 6]"
    and traversal:
      "\<not> norm3 (vsub3 (point_to_3D PB1 (start b1)) (point_to_3D PA (endv a))) +
           norm3 (vsub3 (point_to_3D PB2 (endv b2)) (point_to_3D PA (start a)))
         < norm3 (vsub3 (point_to_3D PB1 (start b1)) (point_to_3D PA (start a))) +
           norm3 (vsub3 (point_to_3D PB2 (endv b2)) (point_to_3D PA (endv a)))"
    and m: "m = (fst (start a) + 2 / 5 * fst (vsub (endv a) (start a)),
                 snd (start a) + 2 / 5 * snd (vsub (endv a) (start a)))"
    and a1: "a1 = inherit_id a (Edge (start a) m)" and a2: "a2 = inherit_id a (Edge m (endv a))"
  shows "\<exists>w' pe. match_edge_count w (1 / 10) = (w', None) \<and>
           int1 w' = \<lparr>i_edges = [a1, a2], i_panel = [pa, pa]\<rparr> \<and>
           map edge_length [a1, a2] = [4, 6] \<and>
           int2 w' = int2 w \<and>
           substitute (p_edges PA) a [Edge (start a) m, Edge m (endv a)] = Inr pe \<and>
           scene w' = (scene w)(pa \<mapsto> PA\<lparr>p_edges := pe\<rparr>) \<and>
           stitch_indices w' False = [(0, 0), (1, 1)] \<and>
           assembly w' =
             Inr [((p_name PA, geometric_id a), (p_name PB1, geometric_id b1)),
                  ((p_name PA, geometric_id a), (p_name PB2, geometric_id b2))]"
proof -
  obtain pe where pe: "substitute (p_edges PA) a [Edge (start a) m, Edge m (endv a)] = Inr pe"
    using owned substitute_Inr_iff by blast
  let ?sc = "(scene w)(pa \<mapsto> PA\<lparr>p_edges := pe\<rparr>)"
  let ?A = "\<lparr>i_edges = [a1, a2], i_panel = [pa, pa]\<rparr>"
  let ?w = "w\<lparr>int1 := ?A, scene := ?sc\<rparr>"
  note L = single_edge_projection [OF projA [unfolded A]]
  have side1: "match_side_count (scene w) (int1 w) [4, 6] (1 / 10) = ((?A, ?sc), None)"
    unfolding A a1 a2 by (rule first_side_run [where sc = "scene w", OF projA [unfolded A] panels(1) pe m])
  have side2: "match_side_count ?sc (int2 w) [10] (1 / 10) = ((int2 w, ?sc), None)"
    unfolding B by (rule second_side_run [OF projB [unfolded B]])
  have tm: "isTraversalMatching w = Inr True"
    by (simp add: isTraversalMatching_def A)
  have run: "match_edge_count w (1 / 10) = (?w, None)"
    by (simp add: match_edge_count_def projA projB tm close_enough_def side1 side2)
  have lens: "map edge_length [a1, a2] = [4, 6]"
  proof -
    have "vsub m (start a) = (2 / 5 * fst (vsub (endv a) (start a)), 2 / 5 * snd (vsub (endv a) (start a)))"
      and "vsub (endv a) m = (3 / 5 * fst (vsub (endv a) (start a)), 3 / 5 * snd (vsub (endv a) (start a)))"
      by (simp_all add: m vsub_def diff_divide_distrib algebra_simps)
    then show ?thesis
      using norm2_scale [of "2 / 5" "vsub (endv a) (start a)"]
        norm2_scale [of "3 / 5" "vsub (endv a) (start a)"] L(1)
      by (simp add: a1 a2 edge_length_Edge)
  qed
  have idx: "stitch_indices ?w False = [(0, 0), (1, 1)]"
    by (simp add: stitch_indices_def B upt_rec)
  have c1: "first_corner ?sc ?A = Inr (point_to_3D PA (start a))"
    by (simp add: first_corner_def a1 inherit_id_def Edge_def)
  have c2: "last_corner ?sc ?A = Inr (point_to_3D PA (endv a))"
    by (simp add: last_corner_def a2 inherit_id_def Edge_def)
  have c3: "first_corner ?sc (int2 w) = Inr (point_to_3D PB1 (start b1))"
    unfolding first_corner_update [where sc = "scene w", OF panels(1)] by (simp add: first_corner_def B panels)
  have c4: "last_corner ?sc (int2 w) = Inr (point_to_3D PB2 (endv b2))"
    unfolding last_corner_update [where sc = "scene w", OF panels(1)] by (simp add: last_corner_def B panels)
  have tm': "isTraversalMatching ?w = Inr True"
    using traversal by (simp add: isTraversalMatching_def c1 c2 c3 c4)
  have s1: "stitch_side ?sc ?A 0 = Inr (p_name PA, geometric_id a)"
    "stitch_side ?sc ?A (Suc 0) = Inr (p_name PA, geometric_id a)"
    by (simp_all add: stitch_side_def a1 a2 inherit_id_def)
  have s2: "stitch_side ?sc (int2 w) 0 = Inr (p_name PB1, geometric_id b1)"
    "stitch_side ?sc (int2 w) (Suc 0) = Inr (p_name PB2, geometric_id b2)"
    unfolding stitch_side_update [where sc = "scene w", OF panels(1)] by (simp_all add: stitch_side_def B panels)
  have asm: "assembly ?w =
             Inr [((p_name PA, geometric_id a), (p_name PB1, geometric_id b1)),
                  ((p_name PA, geometric_id a), (p_name PB2, geometric_id b2))]"
  proof -
    have im: "isMatching ?w"
      by (simp add: isMatching_def B)
    show ?thesis
      unfolding assembly_def tm' using im by (simp add: idx s1 s2)
  qed
  show ?thesis
    using run lens pe idx asm by (intro exI [of _ ?w] exI [of _ pe]) simp
qed

text \<open>
  C1 at the edge from \<open>(0,0)\<close> to \<open>(10,0)\<close> of the front panel against the edges from
  \<open>(0,0)\<close> to \<open>(4,0)\<close> and on to \<open>(10,0)\<close> of the back panel.
\<close>

theorem t_stitch_assembly_witness:
  "\<exists>w'. match_edge_count t_stitch (1 / 10) = (w', None) \<and>
      int1 w' = \<lparr>i_edges = [edge_with_id 3 (0, 0) (4, 0), edge_with_id 3 (4, 0) (10, 0)], i_panel = [0, 0]\<rparr> \<and>
      map edge_length (i_edges (int1 w')) = [4, 6] \<and>
      assembly w' = Inr [((''front'', 3), (''back'', 1)), ((''front'', 3), (''back'', 2))]"
proof -
  let ?a = "edge_with_id 3 (0, 0) (10, 0)"
  let ?b1 = "edge_with_id 1 (0, 0) (4, 0)" and ?b2 = "edge_with_id 2 (4, 0) (10, 0)"
  let ?PA = "flat_panel ''front'' [?a]" and ?PB = "flat_panel ''back'' [?b1, ?b2]"
  have A: "int1 t_stitch = \<lparr>i_edges = [?a], i_panel = [0]\<rparr>"
    and B: "int2 t_stitch = \<lparr>i_edges = [?b1, ?b2], i_panel = [1, 1]\<rparr>"
    and panels: "scene t_stitch 0 = Some ?PA" "scene t_stitch 1 = Some ?PB"
    and owned: "?a \<in> set (p_edges ?PA)"
    by (simp_all add: t_stitch_def rule_on_def side_of_def two_panels_def flat_panel_def)
  have projA: "projecting_edges (int1 t_stitch) = Inr [10]"
    unfolding A by (simp add: projecting_horizontal edge_with_id_def Edge_def)
  have projB: "projecting_edges (int2 t_stitch) = Inr [4, 6]"
    unfolding B by (simp add: projecting_horizontal edge_with_id_def Edge_def)
  have traversal:
      "\<not> norm3 (vsub3 (point_to_3D ?PB (start ?b1)) (point_to_3D ?PA (endv ?a))) +
           norm3 (vsub3 (point_to_3D ?PB (endv ?b2)) (point_to_3D ?PA (start ?a)))
         < norm3 (vsub3 (point_to_3D ?PB (start ?b1)) (point_to_3D ?PA (start ?a))) +
           norm3 (vsub3 (point_to_3D ?PB (endv ?b2)) (point_to_3D ?PA (endv ?a)))"
    by (simp add: point_flat edge_with_id_def Edge_def norm3_x)
  have m: "(4, 0) = (fst (start ?a) + 2 / 5 * fst (vsub (endv ?a) (start ?a)),
                 snd (start ?a) + 2 / 5 * snd (vsub (endv ?a) (start ?a)))"
    by (simp add: edge_with_id_def Edge_def vsub_def)
  have a1: "edge_with_id 3 (0, 0) (4, 0) = inherit_id ?a (Edge (start ?a) (4, 0))"
    and a2: "edge_with_id 3 (4, 0) (10, 0) = inherit_id ?a (Edge (4, 0) (endv ?a))"
    by (simp_all add: edge_with_id_def Edge_def inherit_id_def)
  have "\<exists>w' pe. match_edge_count t_stitch (1 / 10) = (w', None) \<and>
           int1 w' = \<lparr>i_edges = [edge_with_id 3 (0, 0) (4, 0), edge_with_id 3 (4, 0) (10, 0)], i_panel = [0, 0]\<rparr> \<and>
           map edge_length [edge_with_id 3 (0, 0) (4, 0), edge_with_id 3 (4, 0) (10, 0)] = [4, 6] \<and>
           int2 w' = int2 t_stitch \<and>
           substitute (p_edges ?PA) ?a [Edge (start ?a) (4, 0), Edge (4, 0) (endv ?a)] = Inr pe \<and>
           scene w' = (scene t_stitch)(0 \<mapsto> ?PA\<lparr>p_edges := pe\<rparr>) \<and>
           stitch_indices w' False = [(0, 0), (1, 1)] \<and>
           assembly w' =
             Inr [((p_name ?PA, geometric_id ?a), (p_name ?PB, geometric_id ?b1)),
                  ((p_name ?PA, geometric_id ?a), (p_name ?PB, geometric_id ?b2))]"
    by (rule t_stitch_assembly [OF A B panels(1) panels(2) panels(2) owned projA projB traversal m a1 a2])
  then show ?thesis
    by (auto simp: flat_panel_def edge_with_id_def Edge_def)
qed

lemma loop_no_split:
  assumes proj: "projecting_edges itf = Inr ls" and len: "length to_add = length ls"
    and near: "\<forall>k. 0 < k \<and> k \<le> length ls \<longrightarrow>
                 close_enough (sum_list (take k ls)) (sum_list (take k to_add)) tol"
  shows "i \<le> length ls \<Longrightarrow> st_inter st = itf \<Longrightarrow> in_id st = i \<Longrightarrow> add_id st = i \<Longrightarrow>
         covered_init st = sum_list (take i ls) \<Longrightarrow> covered_added st = sum_list (take i to_add) \<Longrightarrow>
         \<exists>st'. match_loop tol to_add st = (st', None) \<and> st_inter st' = itf \<and>
               st_scene st' = st_scene st \<and> add_id st' = length to_add"
proof (induction "length ls - i" arbitrary: i st)
  case 0
  then have "i = length ls" by simp
  with 0 len projecting_edges_length [OF proj] show ?case
    by (simp add: match_loop.simps [of tol to_add st])
next
  case (Suc n)
  then have i: "i < length ls" by simp
  have le: "length ls = length (i_edges itf)"
    by (rule projecting_edges_length [OF proj])
  let ?st1 = "st\<lparr>in_id := i + 1, add_id := i + 1,
                 covered_init := covered_init st + ls ! i,
                 covered_added := covered_added st + to_add ! i\<rparr>"
  have t1: "sum_list (take (Suc i) ls) = sum_list (take i ls) + ls ! i"
    using i by (simp add: take_Suc_conv_app_nth)
  have t2: "sum_list (take (Suc i) to_add) = sum_list (take i to_add) + to_add ! i"
    using i len by (simp add: take_Suc_conv_app_nth)
  have "close_enough (sum_list (take (Suc i) ls)) (sum_list (take (Suc i) to_add)) tol"
    using near i by simp
  then have cl: "close_enough (covered_init st + ls ! i) (covered_added st + to_add ! i) tol"
    using Suc.prems t1 t2 by simp
  have step: "match_step tol to_add st = Inr ?st1"
    using cl Suc.prems proj by (simp add: match_step_def Let_def)
  have unf: "match_loop tol to_add st = match_loop tol to_add ?st1"
    using i len le Suc.prems step by (simp add: match_loop.simps [of tol to_add st])
  have "\<exists>st'. match_loop tol to_add ?st1 = (st', None) \<and> st_inter st' = itf \<and>
               st_scene st' = st_scene ?st1 \<and> add_id st' = length to_add"
  proof (rule Suc.hyps(1) [of "Suc i" ?st1])
    show "n = length ls - Suc i" using Suc.hyps(2) by simp
    show "Suc i \<le> length ls" using i by simp
    show "st_inter ?st1 = itf" using Suc.prems by simp
    show "in_id ?st1 = Suc i" by simp
    show "add_id ?st1 = Suc i" by simp
    show "covered_init ?st1 = sum_list (take (Suc i) ls)" using Suc.prems t1 by simp
    show "covered_added ?st1 = sum_list (take (Suc i) to_add)" using Suc.prems t2 by simp
  qed
  then show ?case
    unfolding unf by simp
qed

lemma side_no_split:
  assumes "projecting_edges itf = Inr ls" and "length to_add = length ls"
    and "\<forall>k. 0 < k \<and> k \<le> length ls \<longrightarrow>
                 close_enough (sum_list (take k ls)) (sum_list (take k to_add)) tol"
  shows "match_side_count sc itf to_add tol = ((itf, sc), None)"
proof -
  let ?st0 = "\<lparr>st_inter = itf, st_scene = sc, in_id = 0, add_id = 0, covered_init = 0, covered_added = 0\<rparr>"
  have "\<exists>st'. match_loop tol to_add ?st0 = (st', None) \<and> st_inter st' = itf \<and>
               st_scene st' = st_scene ?st0 \<and> add_id st' = length to_add"
    by (rule loop_no_split [OF assms, of 0 ?st0]) simp_all
  then show ?thesis
    by (auto simp: match_side_count_def)
qed

lemma build_stitches_map:
  "\<forall>(i, j) \<in> set ijs. stitch_side (scene w) (int1 w) i = Inr (s1 i) \<and>
                        stitch_side (scene w) (int2 w) j = Inr (s2 j) \<Longrightarrow>
   build_stitches w ijs = Inr (map (\<lambda>(i, j). (s1 i, s2 j)) ijs)"
  by (induction ijs) auto

lemma zip_upt_rev: "zip [0 ..< n] (rev [0 ..< n]) = map (\<lambda>i. (i, n - 1 - i)) [0 ..< n]"
  by (rule nth_equalityI) (simp_all add: rev_nth)

lemma zip_upt_same: "zip [0 ..< n] [0 ..< n] = map (\<lambda>i. (i, i)) [0 ..< n]"
  by (rule nth_equalityI) simp_all

lemma stitch_indices_zip:
  assumes "length (i_edges (int1 w)) = length (i_edges (int2 w))"
  shows "stitch_indices w swap =
           map (\<lambda>i. (i, if swap then length (i_edges (int2 w)) - 1 - i else i))
               [0 ..< length (i_edges (int1 w))]"
  using assms by (simp add: stitch_indices_def zip_upt_rev zip_upt_same)

text \<open>
  C7 (amended). For two interfaces of equal edge counts \<^verbatim>\<open>assembly\<close> is the positional zip:
  stitch \<open>i\<close> pairs edge \<open>i\<close> of interface 1 with edge \<open>i\<close> of interface 2, or with edge
  \<open>n - 1 - i\<close> when the traversal does not match. \<^verbatim>\<open>match_edge_count\<close> mutates nothing when,
  in addition, the vertices of the two sides lie at the same places along the seam: every
  partial sum of the projected lengths of a side is within the tolerance of the same
  partial sum of the other side's lengths, read in the matched direction.
\<close>

theorem matched_sides_stay:
  assumes cnt: "length (i_edges (int1 w)) = length (i_edges (int2 w))"
    and tm: "isTraversalMatching w = Inr m"
    and sides: "\<forall>i < length (i_edges (int1 w)).
                  stitch_side (scene w) (int1 w) i = Inr (s1 i) \<and>
                  stitch_side (scene w) (int2 w) i = Inr (s2 i)"
  shows "assembly w =
           Inr (map (\<lambda>i. (s1 i, s2 (if m then i else length (i_edges (int2 w)) - 1 - i)))
                    [0 ..< length (i_edges (int1 w))]) \<and>
         (projecting_edges (int1 w) = Inr l1 \<and> projecting_edges (int2 w) = Inr l2 \<and>
          (\<forall>k. 0 < k \<and> k \<le> length l1 \<longrightarrow>
             close_enough (sum_list (take k l1)) (sum_list (take k (if m then l2 else rev l2))) tol) \<and>
          (\<forall>k. 0 < k \<and> k \<le> length l2 \<longrightarrow>
             close_enough (sum_list (take k l2)) (sum_list (take k (if m then l1 else rev l1))) tol)
          \<longrightarrow> match_edge_count w tol = (w, None))"
proof (intro conjI impI)
  let ?n = "length (i_edges (int1 w))"
  let ?ijs = "map (\<lambda>i. (i, if \<not> m then length (i_edges (int2 w)) - 1 - i else i)) [0 ..< ?n]"
  have "\<forall>(i, j) \<in> set ?ijs. stitch_side (scene w) (int1 w) i = Inr (s1 i) \<and>
                        stitch_side (scene w) (int2 w) j = Inr (s2 j)"
    using sides cnt by auto
  then have "build_stitches w ?ijs = Inr (map (\<lambda>(i, j). (s1 i, s2 j)) ?ijs)"
    by (rule build_stitches_map)
  then show "assembly w =
           Inr (map (\<lambda>i. (s1 i, s2 (if m then i else length (i_edges (int2 w)) - 1 - i))) [0 ..< ?n])"
    using cnt tm by (simp add: assembly_def isMatching_def stitch_indices_zip comp_def if_distrib cong: if_cong)
next
  assume h: "projecting_edges (int1 w) = Inr l1 \<and> projecting_edges (int2 w) = Inr l2 \<and>
          (\<forall>k. 0 < k \<and> k \<le> length l1 \<longrightarrow>
             close_enough (sum_list (take k l1)) (sum_list (take k (if m then l2 else rev l2))) tol) \<and>
          (\<forall>k. 0 < k \<and> k \<le> length l2 \<longrightarrow>
             close_enough (sum_list (take k l2)) (sum_list (take k (if m then l1 else rev l1))) tol)"
  then have p1: "projecting_edges (int1 w) = Inr l1" and p2: "projecting_edges (int2 w) = Inr l2"
    and near1: "\<forall>k. 0 < k \<and> k \<le> length l1 \<longrightarrow>
             close_enough (sum_list (take k l1)) (sum_list (take k (if m then l2 else rev l2))) tol"
    and near2: "\<forall>k. 0 < k \<and> k \<le> length l2 \<longrightarrow>
             close_enough (sum_list (take k l2)) (sum_list (take k (if m then l1 else rev l1))) tol"
    by blast+
  have n1: "length l1 = length (i_edges (int1 w))" and n2: "length l2 = length (i_edges (int2 w))"
    using projecting_edges_length p1 p2 by simp_all
  have "i_edges (int1 w) \<noteq> []"
    using p1 by (auto simp: projecting_edges_def)
  then have ne: "l1 \<noteq> []"
    using n1 by auto
  have "0 < length l1 \<and> length l1 \<le> length l1"
    using ne by simp
  with near1 have "close_enough (sum_list (take (length l1) l1))
          (sum_list (take (length l1) (if m then l2 else rev l2))) tol"
    by blast
  then have total: "close_enough (sum_list l1) (sum_list l2) tol"
    using n1 n2 cnt by (simp add: sum_list_rev split: if_splits)
  have side1: "match_side_count (scene w) (int1 w) (if m then l2 else rev l2) tol = ((int1 w, scene w), None)"
    using n1 n2 cnt by (intro side_no_split [OF p1 _ near1]) simp
  have side2: "match_side_count (scene w) (int2 w) (if m then l1 else rev l1) tol = ((int2 w, scene w), None)"
    using n1 n2 cnt by (intro side_no_split [OF p2 _ near2]) simp
  show "match_edge_count w tol = (w, None)"
    using total side1 side2 by (cases m) (simp_all add: match_edge_count_def p1 p2 tm sum_list_rev)
qed

text \<open>
  The amended C7 at two sides with the edges of the lengths 4 and 6.
\<close>

theorem matched_sides_stay_witness:
  "match_edge_count even_stitch (1 / 10) = (even_stitch, None) \<and>
   assembly even_stitch = Inr [((''front'', 1), (''back'', 5)), ((''front'', 2), (''back'', 6))]"
proof -
  let ?s1 = "\<lambda>i :: nat. (''front'', if i = 0 then 1 else 2 :: nat)"
  let ?s2 = "\<lambda>i :: nat. (''back'', if i = 0 then 5 else 6 :: nat)"
  have cnt: "length (i_edges (int1 even_stitch)) = length (i_edges (int2 even_stitch))"
    and two: "length (i_edges (int1 even_stitch)) = 2" "length (i_edges (int2 even_stitch)) = 2"
    by (simp_all add: even_stitch_def rule_on_def side_of_def)
  have tm: "isTraversalMatching even_stitch = Inr True"
    unfolding even_stitch_def
    by (simp add: isTraversalMatching_def corners_rule_on norm3_x edge_with_id_def Edge_def)
  have sides: "\<forall>i < length (i_edges (int1 even_stitch)).
                  stitch_side (scene even_stitch) (int1 even_stitch) i = Inr (?s1 i) \<and>
                  stitch_side (scene even_stitch) (int2 even_stitch) i = Inr (?s2 i)"
    by (simp add: even_stitch_def rule_on_def side_of_def two_panels_def flat_panel_def stitch_side_def
          edge_with_id_def less_Suc_eq numeral_2_eq_2)
  have p1: "projecting_edges (int1 even_stitch) = Inr [4, 6]"
    and p2: "projecting_edges (int2 even_stitch) = Inr [4, 6]"
    by (simp_all add: even_stitch_def rule_on_def side_of_def projecting_horizontal edge_with_id_def Edge_def)
  have near: "\<forall>k. 0 < k \<and> k \<le> length [4, 6 :: real] \<longrightarrow>
             close_enough (sum_list (take k [4, 6])) (sum_list (take k (if True then [4, 6] else rev [4, 6])))
               (1 / 10)"
    by (simp add: close_enough_def)
  note inst = matched_sides_stay [OF cnt tm sides, of "[4, 6]" "[4, 6]" "1 / 10"]
  have a: "match_edge_count even_stitch (1 / 10) = (even_stitch, None)"
    using inst p1 p2 near by blast
  have "assembly even_stitch = Inr (map (\<lambda>i. (?s1 i, ?s2 i)) [0 ..< 2])"
    using inst two by simp
  then have b: "assembly even_stitch = Inr [((''front'', 1), (''back'', 5)), ((''front'', 2), (''back'', 6))]"
    by (simp add: upt_rec)
  show ?thesis using a b by simp
qed

text \<open>
  C7 as stated fails: the sides with the lengths 3, 7 and 5, 5 have equal edge counts and
  equal totals, and \<^verbatim>\<open>match_edge_count\<close> subdivides both into the lengths 3, 2, 5.
\<close>

theorem equal_totals_still_subdivide:
  "length (i_edges (int1 uneven_stitch)) = length (i_edges (int2 uneven_stitch)) \<and>
   projecting_edges (int1 uneven_stitch) = Inr [3, 7] \<and>
   projecting_edges (int2 uneven_stitch) = Inr [5, 5] \<and>
   (case match_edge_count uneven_stitch (1 / 10) of (w', r) \<Rightarrow>
      r = None \<and>
      i_edges (int1 w') = [Edge (0, 0) (3, 0), Edge (3, 0) (5, 0), Edge (5, 0) (10, 0)] \<and>
      i_edges (int2 w') = [Edge (0, 0) (3, 0), Edge (3, 0) (5, 0), Edge (5, 0) (10, 0)])"
  by (simp add: uneven_stitch_def run_simps first_corner_def last_corner_def point_to_3D_def norm3_x)

end
